theory Spec2Isabelle
  imports Main "HOL-Library.Sublist"
begin

section \<open>Values, exceptions and the outside world\<close>

text \<open>
  Python values that travel through the program as parsed JSON (request payloads, response
  bodies, an agent's \<open>config\<close> dictionary, message contents). \<open>JNull\<close> is Python's
  \<open>None\<close>. \<open>JFloat m e\<close> is the float written \<open>m\<close> times ten to the \<open>e\<close>. A \<open>JObj\<close> holds the items
  of a \<open>dict\<close> with string keys; a key is looked up by its first binding. Text is a list
  of characters, each read as one code point below 256.
\<close>

datatype json =
    JNull
  | JBool bool
  | JInt int
  | JFloat int int
  | JStr string
  | JArr "json list"
  | JObj "(string \<times> json) list"

text \<open>
  The exceptions the modelled code can meet. \<open>TransportError\<close> stands for the network and
  timeout errors of the HTTP library, \<open>HTTPStatusError\<close> carries the status code,
  \<open>IntegrityError\<close> is the store refusing a duplicate primary key, \<open>MarkupError\<close> the
  console refusing a text. All of them derive from Python's \<open>Exception\<close> except
  \<open>KeyboardInterrupt\<close>.
\<close>

datatype exn =
    HTTPStatusError int
  | TransportError string
  | JSONDecodeError
  | KeyError
  | IndexError
  | TypeError
  | ValueError string
  | RuntimeError string
  | AttributeError
  | IntegrityError
  | MarkupError
  | EOFError
  | KeyboardInterrupt

fun is_Exception :: "exn \<Rightarrow> bool" where
  "is_Exception KeyboardInterrupt = False"
| "is_Exception _ = True"

text \<open>Python truthiness, as used by \<open>x or y\<close> and \<open>if x:\<close>.\<close>

fun truthy :: "json \<Rightarrow> bool" where
  "truthy JNull = False"
| "truthy (JBool b) = b"
| "truthy (JInt i) = (i \<noteq> 0)"
| "truthy (JFloat m e) = (m \<noteq> 0)"
| "truthy (JStr s) = (s \<noteq> [])"
| "truthy (JArr xs) = (xs \<noteq> [])"
| "truthy (JObj kvs) = (kvs \<noteq> [])"

text \<open>\<open>v[k]\<close> with a string key: only a dict accepts it.\<close>

fun getitem_key :: "json \<Rightarrow> string \<Rightarrow> exn + json" where
  "getitem_key (JObj kvs) k = (case map_of kvs k of None \<Rightarrow> Inl KeyError | Some v \<Rightarrow> Inr v)"
| "getitem_key _ k = Inl TypeError"

text \<open>
  \<open>v[0]\<close>: the first element of a list, the first character of a string, \<open>KeyError\<close> on a
  dict (whose keys are strings), \<open>TypeError\<close> on anything else.
\<close>

fun getitem_0 :: "json \<Rightarrow> exn + json" where
  "getitem_0 (JArr []) = Inl IndexError"
| "getitem_0 (JArr (x # xs)) = Inr x"
| "getitem_0 (JStr []) = Inl IndexError"
| "getitem_0 (JStr (c # cs)) = Inr (JStr [c])"
| "getitem_0 (JObj kvs) = Inl KeyError"
| "getitem_0 _ = Inl TypeError"

text \<open>\<open>d.get(k)\<close> and \<open>d.get(k, default)\<close> on a dict: the value, or \<open>None\<close>, or the default.\<close>

definition dict_get_default :: "(string \<times> json) list \<Rightarrow> string \<Rightarrow> json \<Rightarrow> json" where
  "dict_get_default kvs k d = (case map_of kvs k of None \<Rightarrow> d | Some v \<Rightarrow> v)"

definition dict_get :: "(string \<times> json) list \<Rightarrow> string \<Rightarrow> json" where
  "dict_get kvs k = dict_get_default kvs k JNull"

text \<open>\<open>v.get(k)\<close>: only a dict has the method.\<close>

fun py_get :: "json \<Rightarrow> string \<Rightarrow> exn + json" where
  "py_get (JObj kvs) k = Inr (dict_get kvs k)"
| "py_get _ k = Inl AttributeError"

text \<open>
  \<open>k in v\<close> for a string \<open>k\<close>: key membership on a dict, element membership on a list,
  substring test on a string, \<open>TypeError\<close> otherwise.
\<close>

fun contains :: "json \<Rightarrow> string \<Rightarrow> exn + bool" where
  "contains (JObj kvs) k = Inr (k \<in> set (map fst kvs))"
| "contains (JArr xs) k = Inr (JStr k \<in> set xs)"
| "contains (JStr s) k = Inr (sublist k s)"
| "contains _ k = Inl TypeError"

subsection \<open>Text operations of Python's \<open>str\<close>\<close>

text \<open>\<open>str.isspace\<close> on one character.\<close>

definition is_space :: "char \<Rightarrow> bool" where
  "is_space c = (let n = (of_char c :: nat) in
     (9 \<le> n \<and> n \<le> 13) \<or> (28 \<le> n \<and> n \<le> 32) \<or> n = 133 \<or> n = 160)"

definition strip :: "string \<Rightarrow> string" where
  "strip s = rev (dropWhile is_space (rev (dropWhile is_space s)))"

text \<open>
  \<open>s.split()\<close>: the maximal runs of non-space characters, in order. \<open>cur\<close> holds the run
  being read, reversed.
\<close>

fun split_from :: "string \<Rightarrow> string \<Rightarrow> string list" where
  "split_from cur [] = (if cur = [] then [] else [rev cur])"
| "split_from cur (c # cs) =
     (if is_space c then (if cur = [] then split_from [] cs else rev cur # split_from [] cs)
      else split_from (c # cur) cs)"

definition split :: "string \<Rightarrow> string list" where
  "split s = split_from [] s"

definition lower_char :: "char \<Rightarrow> char" where
  "lower_char c = (let n = (of_char c :: nat) in
     if (65 \<le> n \<and> n \<le> 90) \<or> (192 \<le> n \<and> n \<le> 222 \<and> n \<noteq> 215) then char_of (n + 32) else c)"

definition lower :: "string \<Rightarrow> string" where
  "lower s = map lower_char s"

definition startswith :: "string \<Rightarrow> string \<Rightarrow> bool" where
  "startswith s pre = prefix pre s"

subsection \<open>Messages and completion results (\<open>ai/base.py\<close>)\<close>

record Message =
  role :: string
  content :: json
  metadata :: "(string \<times> json) list option"

record CompletionResponse =
  cr_content :: json
  cr_role :: json
  finish_reason :: json
  usage :: json
  cr_metadata :: "(string \<times> json) list option"

subsection \<open>Configuration (\<open>config/__init__.py\<close>)\<close>

record AIServiceConfig =
  default_provider :: string
  cfg_default_model :: string
  cfg_timeout :: int
  cfg_max_retries :: int
  openai_api_key :: "string option"
  openai_base_url :: "string option"

record Config =
  default_agent :: string
  ai_service_cfg :: AIServiceConfig
  auto_save :: bool

subsection \<open>Stored rows (\<open>storage/models.py\<close>)\<close>

text \<open>
  Identifiers come from \<open>uuid.uuid4()\<close>; the model draws them from a counter, so that two
  draws never agree. Time stamps are read from a clock the model does not advance.
\<close>

type_synonym uuid = nat

record AgentModel =
  am_id :: uuid
  am_name :: string
  am_type :: string
  am_description :: "string option"
  am_config :: "(string \<times> json) list"
  am_status :: string

record SessionModel =
  sm_id :: uuid
  sm_title :: string
  sm_agent_id :: uuid
  sm_messages :: "(string \<times> json \<times> string) list"

subsection \<open>The provider, the store, the log and the terminal\<close>

type_synonym payload = "string \<rightharpoonup> json"

text \<open>
  What one HTTP exchange does. A \<open>POST\<close> either raises or returns a status code and a body;
  a streaming request either raises on opening or returns a status code, the lines the
  body delivers, and the error (if any) that ends the delivery.
\<close>

datatype post_outcome = PostRaises exn | PostResponse int string

datatype stream_outcome = StreamRaises exn | StreamResponse int "string list" "exn option"

text \<open>One constructor for each logging call of the modelled code.\<close>

datatype log_entry =
    LogAPIError int int exn
  | LogUnexpected int int exn
  | LogChunkWarning exn
  | LogSaveFailed exn
  | LogCreatedAgent string uuid
  | LogREPLError exn

text \<open>
  What the REPL prints on the console: one constructor for each \<open>console.print\<close> call
  that prints, with the data its text shows (\<open>HelpHint\<close> and \<open>UnknownCommand\<close> are the two
  prints of the last branch of \<open>handle_command\<close>). The markup and the wording are left out.
\<close>

datatype console_event =
    WelcomeBanner
  | UsingAgent string string
  | WelcomeHint
  | WelcomeCommands
  | HelpText
  | NoMessagesYet
  | HistoryHeader
  | HistoryRole string
  | HistoryContent json
  | NoMessagesToSave
  | SessionSaved uuid
  | SaveFailed exn
  | AssistantHeader
  | EmptyLine
  | InterruptHint
  | Goodbye
  | HistoryCleared
  | SwitchedAgent string
  | AgentNotFound string
  | CurrentAgent string string
  | UnknownCommand string
  | HelpHint
  | CreatingDefaultAgent

text \<open>
  The provider is scripted: \<open>on_post n p\<close> is the answer to payload \<open>p\<close> when \<open>n\<close> requests
  have been made before it, and every request is recorded in \<open>requests\<close>. \<open>agents\<close> and
  \<open>sessions\<close> are the two tables of the store, \<open>next_uuid\<close> the identifier counter.
\<close>

record world =
  on_post :: "nat \<Rightarrow> payload \<Rightarrow> post_outcome"
  on_stream :: "nat \<Rightarrow> payload \<Rightarrow> stream_outcome"
  requests :: "payload list"
  log :: "log_entry list"
  stdout :: "string list"
  console :: "console_event list"
  agents :: "AgentModel list"
  sessions :: "SessionModel list"
  next_uuid :: uuid
  utcnow :: string

definition post :: "world \<Rightarrow> payload \<Rightarrow> post_outcome \<times> world" where
  "post w p = (on_post w (length (requests w)) p, w\<lparr>requests := requests w @ [p]\<rparr>)"

definition open_stream :: "world \<Rightarrow> payload \<Rightarrow> stream_outcome \<times> world" where
  "open_stream w p = (on_stream w (length (requests w)) p, w\<lparr>requests := requests w @ [p]\<rparr>)"

definition logger :: "log_entry \<Rightarrow> world \<Rightarrow> world" where
  "logger e w = w\<lparr>log := log w @ [e]\<rparr>"

definition console_print :: "console_event \<Rightarrow> world \<Rightarrow> world" where
  "console_print e w = w\<lparr>console := console w @ [e]\<rparr>"

definition print :: "string \<Rightarrow> world \<Rightarrow> world" where
  "print s w = w\<lparr>stdout := stdout w @ [s]\<rparr>"

definition newline :: string where
  "newline = [CHR 0x0A]"

definition uuid4 :: "world \<Rightarrow> uuid \<times> world" where
  "uuid4 w = (next_uuid w, w\<lparr>next_uuid := Suc (next_uuid w)\<rparr>)"

section \<open>The completion client (\<open>ai/openai.py\<close>)\<close>

record OpenAIService =
  api_key :: string
  base_url :: string
  timeout :: int
  max_retries :: int
  default_model :: string

text \<open>\<open>OpenAIService.__init__\<close>: \<open>a or b\<close> takes \<open>b\<close> when \<open>a\<close> is \<open>None\<close>, empty or zero.\<close>

definition or_str :: "string option \<Rightarrow> string option \<Rightarrow> string option" where
  "or_str a b = (case a of None \<Rightarrow> b | Some s \<Rightarrow> if s = [] then b else Some s)"

definition or_int :: "int \<Rightarrow> int \<Rightarrow> int" where
  "or_int a b = (if a \<noteq> 0 then a else b)"

definition OpenAIService_init ::
  "Config \<Rightarrow> string option \<Rightarrow> string option \<Rightarrow> int \<Rightarrow> int \<Rightarrow> exn + OpenAIService" where
  "OpenAIService_init config api_key_arg base_url_arg timeout_arg max_retries_arg =
     (let c = ai_service_cfg config in
      case or_str api_key_arg (openai_api_key c) of
        None \<Rightarrow> Inl (ValueError ''OpenAI API key not configured'')
      | Some k \<Rightarrow>
          if k = [] then Inl (ValueError ''OpenAI API key not configured'')
          else Inr (OpenAIService.make
            k
            (case or_str (or_str base_url_arg (openai_base_url c))
                         (Some ''https://api.openai.com/v1'') of
               None \<Rightarrow> [] | Some u \<Rightarrow> u)
            (or_int timeout_arg (cfg_timeout c))
            (or_int max_retries_arg (cfg_max_retries c))
            (cfg_default_model c)))"

definition openai_messages :: "Message list \<Rightarrow> json" where
  "openai_messages messages =
     JArr (map (\<lambda>msg. JObj [(''role'', JStr (role msg)), (''content'', content msg)]) messages)"

text \<open>
  The request payload of \<open>complete\<close>. \<open>kwargs\<close> holds the extra keyword arguments; Python
  binds \<open>model\<close>, \<open>temperature\<close> and \<open>max_tokens\<close> to the named parameters, so these keys
  never occur in \<open>kwargs\<close>.
\<close>

definition complete_payload ::
  "OpenAIService \<Rightarrow> Message list \<Rightarrow> json \<Rightarrow> json \<Rightarrow> json \<Rightarrow> payload \<Rightarrow> payload" where
  "complete_payload self messages model temperature max_tokens kwargs =
     (let model' = (if truthy model then model else JStr (default_model self));
          p = [''model'' \<mapsto> model',
               ''messages'' \<mapsto> openai_messages messages,
               ''temperature'' \<mapsto> temperature] ++ kwargs
      in if truthy max_tokens then p(''max_tokens'' \<mapsto> max_tokens) else p)"

text \<open>The payload of \<open>complete_stream\<close> also sets the streaming flag before \<open>kwargs\<close>.\<close>

definition stream_payload ::
  "OpenAIService \<Rightarrow> Message list \<Rightarrow> json \<Rightarrow> json \<Rightarrow> json \<Rightarrow> payload \<Rightarrow> payload" where
  "stream_payload self messages model temperature max_tokens kwargs =
     (let model' = (if truthy model then model else JStr (default_model self));
          p = [''model'' \<mapsto> model',
               ''messages'' \<mapsto> openai_messages messages,
               ''temperature'' \<mapsto> temperature,
               ''stream'' \<mapsto> JBool True] ++ kwargs
      in if truthy max_tokens then p(''max_tokens'' \<mapsto> max_tokens) else p)"

text \<open>
  The body of the \<open>try\<close> after the request has returned: \<open>raise_for_status\<close> raises
  \<open>HTTPStatusError\<close> unless the status is 2xx, \<open>response.json()\<close> parses the body with
  \<open>loads\<close> (\<open>None\<close> when the text is not JSON), then the fields are read in source order.
\<close>

definition raise_for_status :: "int \<Rightarrow> exn + unit" where
  "raise_for_status status =
     (if 200 \<le> status \<and> status \<le> 299 then Inr () else Inl (HTTPStatusError status))"

definition extract_response :: "json \<Rightarrow> exn + CompletionResponse" where
  "extract_response data =
     (case getitem_key data ''choices'' of Inl e \<Rightarrow> Inl e | Inr choices \<Rightarrow>
      case getitem_0 choices of Inl e \<Rightarrow> Inl e | Inr choice \<Rightarrow>
      case getitem_key choice ''message'' of Inl e \<Rightarrow> Inl e | Inr message \<Rightarrow>
      case getitem_key message ''content'' of Inl e \<Rightarrow> Inl e | Inr c \<Rightarrow>
      case getitem_key choice ''message'' of Inl e \<Rightarrow> Inl e | Inr message2 \<Rightarrow>
      case getitem_key message2 ''role'' of Inl e \<Rightarrow> Inl e | Inr r \<Rightarrow>
      case py_get choice ''finish_reason'' of Inl e \<Rightarrow> Inl e | Inr fr \<Rightarrow>
      case py_get data ''usage'' of Inl e \<Rightarrow> Inl e | Inr u \<Rightarrow>
        Inr (CompletionResponse.make c r fr u None))"

definition attempt_result ::
  "(string \<Rightarrow> json option) \<Rightarrow> post_outcome \<Rightarrow> exn + CompletionResponse" where
  "attempt_result loads out =
     (case out of
        PostRaises e \<Rightarrow> Inl e
      | PostResponse status body \<Rightarrow>
          (case raise_for_status status of
             Inl e \<Rightarrow> Inl e
           | Inr _ \<Rightarrow>
               (case loads body of
                  None \<Rightarrow> Inl JSONDecodeError
                | Some data \<Rightarrow> extract_response data)))"

text \<open>
  The retry loop \<open>for attempt in range(self.max_retries)\<close>. A failure that is an
  \<open>HTTPStatusError\<close> is handled by the first \<open>except\<close>, any other \<open>Exception\<close> by the second;
  both log and re-raise on the last attempt. An exception that is not an \<open>Exception\<close>
  leaves the loop at once. When the range is exhausted (or empty) the final
  \<open>raise RuntimeError\<close> is reached.
\<close>

function retry_loop ::
  "(string \<Rightarrow> json option) \<Rightarrow> OpenAIService \<Rightarrow> payload \<Rightarrow> int \<Rightarrow> world
     \<Rightarrow> (exn + CompletionResponse) \<times> world" where
  "retry_loop loads self p attempt w =
     (if attempt < max_retries self then
        (let (out, w1) = post w p in
         case attempt_result loads out of
           Inr r \<Rightarrow> (Inr r, w1)
         | Inl e \<Rightarrow>
             (case e of
                HTTPStatusError s \<Rightarrow>
                  (let w2 = logger (LogAPIError (attempt + 1) (max_retries self) e) w1 in
                   if attempt = max_retries self - 1 then (Inl e, w2)
                   else retry_loop loads self p (attempt + 1) w2)
              | _ \<Rightarrow>
                  if is_Exception e then
                    (let w2 = logger (LogUnexpected (attempt + 1) (max_retries self) e) w1 in
                     if attempt = max_retries self - 1 then (Inl e, w2)
                     else retry_loop loads self p (attempt + 1) w2)
                  else (Inl e, w1)))
      else (Inl (RuntimeError ''Failed to complete request after retries''), w))"
  by pat_completeness auto
termination
  by (relation "measure (\<lambda>(loads, self, p, attempt, w). nat (max_retries self - attempt))") auto

declare retry_loop.simps [simp del]

definition complete ::
  "(string \<Rightarrow> json option) \<Rightarrow> OpenAIService \<Rightarrow> Message list \<Rightarrow> json \<Rightarrow> json \<Rightarrow> json \<Rightarrow> payload
     \<Rightarrow> world \<Rightarrow> (exn + CompletionResponse) \<times> world" where
  "complete loads self messages model temperature max_tokens kwargs w =
     retry_loop loads self (complete_payload self messages model temperature max_tokens kwargs) 0 w"

subsection \<open>Streaming\<close>

text \<open>
  What the generator \<open>complete_stream\<close> does when it is resumed: it yields a chunk or logs
  a warning. A stream is the list of these events in order, with the exception (if any)
  that ends it; the consumer runs the events one by one.
\<close>

datatype stream_event = Chunk json | Warning exn

type_synonym stream = "stream_event list \<times> exn option"

text \<open>
  The \<open>try\<close> body for one \<open>data: \<close> line: \<open>Inr None\<close> when the delta has no content,
  \<open>Inr (Some v)\<close> when \<open>v\<close> is yielded.
\<close>

definition parse_chunk :: "(string \<Rightarrow> json option) \<Rightarrow> string \<Rightarrow> exn + json option" where
  "parse_chunk loads text =
     (case loads text of None \<Rightarrow> Inl JSONDecodeError | Some data \<Rightarrow>
      case getitem_key data ''choices'' of Inl e \<Rightarrow> Inl e | Inr choices \<Rightarrow>
      case getitem_0 choices of Inl e \<Rightarrow> Inl e | Inr choice \<Rightarrow>
      case getitem_key choice ''delta'' of Inl e \<Rightarrow> Inl e | Inr delta \<Rightarrow>
      case contains delta ''content'' of Inl e \<Rightarrow> Inl e | Inr b \<Rightarrow>
        if b then (case getitem_key delta ''content'' of Inl e \<Rightarrow> Inl e | Inr v \<Rightarrow> Inr (Some v))
        else Inr None)"

text \<open>
  One line of the body. \<open>Inl e\<close>: the exception \<open>e\<close> leaves the generator, because the
  \<open>except\<close> clause names only \<open>JSONDecodeError\<close>, \<open>KeyError\<close> and \<open>IndexError\<close>.
\<close>

definition decode_line :: "(string \<Rightarrow> json option) \<Rightarrow> string \<Rightarrow> exn + stream_event option" where
  "decode_line loads line =
     (if line = [] \<or> line = ''data: [DONE]'' then Inr None
      else if startswith line ''data: '' then
        (case parse_chunk loads (drop 6 line) of
           Inr None \<Rightarrow> Inr None
         | Inr (Some v) \<Rightarrow> Inr (Some (Chunk v))
         | Inl e \<Rightarrow>
             if e = JSONDecodeError \<or> e = KeyError \<or> e = IndexError then Inr (Some (Warning e))
             else Inl e)
      else Inr None)"

fun decode_lines :: "(string \<Rightarrow> json option) \<Rightarrow> string list \<Rightarrow> exn option \<Rightarrow> stream" where
  "decode_lines loads [] final = ([], final)"
| "decode_lines loads (line # rest) final =
     (case decode_line loads line of
        Inl e \<Rightarrow> ([], Some e)
      | Inr None \<Rightarrow> decode_lines loads rest final
      | Inr (Some ev) \<Rightarrow> (ev # fst (decode_lines loads rest final), snd (decode_lines loads rest final)))"

definition complete_stream ::
  "(string \<Rightarrow> json option) \<Rightarrow> OpenAIService \<Rightarrow> Message list \<Rightarrow> json \<Rightarrow> json \<Rightarrow> json \<Rightarrow> payload
     \<Rightarrow> world \<Rightarrow> stream \<times> world" where
  "complete_stream loads self messages model temperature max_tokens kwargs w =
     (let (out, w1) = open_stream w (stream_payload self messages model temperature max_tokens kwargs) in
      case out of
        StreamRaises e \<Rightarrow> (([], Some e), w1)
      | StreamResponse status lines final \<Rightarrow>
          (case raise_for_status status of
             Inl e \<Rightarrow> (([], Some e), w1)
           | Inr _ \<Rightarrow> (decode_lines loads lines final, w1)))"

section \<open>Agents (\<open>core/agent.py\<close>)\<close>

text \<open>
  An agent as the chat code reads it. \<open>ai_service_cache\<close> is the field \<open>_ai_service\<close>; the
  time stamps and the metadata dictionary, which no modelled code reads, are left out.
\<close>

record Agent =
  agent_id :: uuid
  name :: string
  agent_type :: string
  description :: "string option"
  config :: "(string \<times> json) list"
  status :: string
  ai_service_cache :: "OpenAIService option"

definition DEFAULT_SYSTEM_PROMPTS :: "(string \<times> string) list" where
  "DEFAULT_SYSTEM_PROMPTS =
    [(''general'', ''You are a helpful AI assistant.''),
     (''developer'', ''You are an expert software developer assistant, helping with coding, debugging, and software design.''),
     (''devops'', ''You are a DevOps expert, assisting with automation, deployment, monitoring, and system administration.''),
     (''data_analyst'', ''You are a data analysis expert, helping with data processing, analysis, and visualization.'')]"

definition get_system_prompt :: "Agent \<Rightarrow> json" where
  "get_system_prompt self =
     (case map_of (config self) ''system_prompt'' of
        Some v \<Rightarrow> v
      | None \<Rightarrow>
          (case map_of DEFAULT_SYSTEM_PROMPTS (agent_type self) of
             Some p \<Rightarrow> JStr p
           | None \<Rightarrow> JStr ''You are a helpful AI assistant.''))"

text \<open>
  The property \<open>ai_service\<close>: the cached client, or a new \<open>OpenAIService()\<close> (default
  arguments) when the provider is \<open>openai\<close>. The agent is returned with its cache filled.
\<close>

definition ai_service :: "Config \<Rightarrow> Agent \<Rightarrow> (exn + OpenAIService) \<times> Agent" where
  "ai_service cfg self =
     (case ai_service_cache self of
        Some svc \<Rightarrow> (Inr svc, self)
      | None \<Rightarrow>
          (let provider = (if truthy (dict_get (config self) ''provider'')
                           then dict_get (config self) ''provider''
                           else JStr (default_provider (ai_service_cfg cfg)))
           in if provider = JStr ''openai'' then
                (case OpenAIService_init cfg None None 60 3 of
                   Inl e \<Rightarrow> (Inl e, self)
                 | Inr svc \<Rightarrow> (Inr svc, self\<lparr>ai_service_cache := Some svc\<rparr>))
              else (Inl (ValueError ''Unsupported AI provider''), self)))"

text \<open>The message list \<open>chat\<close> builds: system prompt, history (when given and not empty), user message.\<close>

definition build_messages :: "Agent \<Rightarrow> string \<Rightarrow> Message list option \<Rightarrow> Message list" where
  "build_messages self message history =
     [Message.make ''system'' (get_system_prompt self) None]
     @ (case history of None \<Rightarrow> [] | Some h \<Rightarrow> if h = [] then [] else h)
     @ [Message.make ''user'' (JStr message) None]"

text \<open>
  The \<open>async for\<close> loop of the streaming branch: a warning event is the generator logging,
  a chunk is appended to \<open>full_content\<close> (a \<open>TypeError\<close> when it is not text) and then
  printed. The stream's own exception, if any, is raised when its events are used up.
\<close>

fun consume :: "stream_event list \<Rightarrow> exn option \<Rightarrow> string \<Rightarrow> world \<Rightarrow> (exn + string) \<times> world" where
  "consume [] None full_content w = (Inr full_content, w)"
| "consume [] (Some e) full_content w = (Inl e, w)"
| "consume (Warning e # evs) final full_content w =
     consume evs final full_content (logger (LogChunkWarning e) w)"
| "consume (Chunk v # evs) final full_content w =
     (case v of
        JStr chunk \<Rightarrow> consume evs final (full_content @ chunk) (print chunk w)
      | _ \<Rightarrow> (Inl TypeError, w))"

definition chat ::
  "Config \<Rightarrow> (string \<Rightarrow> json option) \<Rightarrow> Agent \<Rightarrow> string \<Rightarrow> Message list option \<Rightarrow> bool \<Rightarrow> world
     \<Rightarrow> (exn + json) \<times> Agent \<times> world" where
  "chat cfg loads self message history stream w =
     (let messages = build_messages self message history;
          model = dict_get (config self) ''model'';
          temperature = dict_get_default (config self) ''temperature'' (JFloat 7 (- 1));
          max_tokens = dict_get (config self) ''max_tokens''
      in case ai_service cfg self of
           (Inl e, self1) \<Rightarrow> (Inl e, self1, w)
         | (Inr svc, self1) \<Rightarrow>
             if stream then
               (case complete_stream loads svc messages model temperature max_tokens Map.empty w of
                  ((evs, final), w1) \<Rightarrow>
                    (case consume evs final [] w1 of
                       (Inl e, w2) \<Rightarrow> (Inl e, self1, w2)
                     | (Inr full_content, w2) \<Rightarrow>
                         (Inr (JStr full_content), self1, print newline w2)))
             else
               (case complete loads svc messages model temperature max_tokens Map.empty w of
                  (Inl e, w1) \<Rightarrow> (Inl e, self1, w1)
                | (Inr response, w1) \<Rightarrow> (Inr (cr_content response), self1, w1)))"

subsection \<open>The agent manager\<close>

definition model_to_agent :: "AgentModel \<Rightarrow> Agent" where
  "model_to_agent m = Agent.make (am_id m) (am_name m) (am_type m) (am_description m)
                        (am_config m) (am_status m) None"

definition get_agent :: "world \<Rightarrow> string \<Rightarrow> Agent option" where
  "get_agent w nm = map_option model_to_agent (find (\<lambda>m. am_name m = nm) (agents w))"

definition create_agent ::
  "string \<Rightarrow> string \<Rightarrow> string option \<Rightarrow> world \<Rightarrow> (exn + Agent) \<times> world" where
  "create_agent nm ty descr w =
     (case find (\<lambda>m. am_name m = nm) (agents w) of
        Some existing \<Rightarrow> (Inl (ValueError ''Agent already exists''), w)
      | None \<Rightarrow>
          (let (new_id, w1) = uuid4 w;
               row = AgentModel.make new_id nm ty descr [] ''enabled'';
               w2 = w1\<lparr>agents := agents w1 @ [row]\<rparr>;
               w3 = logger (LogCreatedAgent nm new_id) w2
           in (Inr (model_to_agent row), w3)))"

section \<open>The interactive session (\<open>repl/__init__.py\<close>)\<close>

record REPLSession =
  agent :: Agent
  session_id :: uuid
  messages :: "Message list"

text \<open>
  What \<open>prompt_async\<close> gives: a line, \<open>KeyboardInterrupt\<close> (\<open>CtrlC\<close>) or \<open>EOFError\<close>
  (\<open>CtrlD\<close>). When the input is used up the prompt raises \<open>EOFError\<close> as well. The prompt's
  own set-up (history file, completion) has no part in what follows and is not modelled.
\<close>

datatype user_input = Line string | CtrlC | CtrlD

text \<open>
  \<open>console.print\<close> of a text into which the program has put a name, a command or a
  message. The console parses the text as markup and raises \<open>MarkupError\<close> when a closing
  tag in it closes nothing (a name \<open>[/]\<close>, for one); nothing is printed then. The console
  library is not part of the repository: \<open>markup_error ev\<close> says whether it raises for the
  text of the message \<open>ev\<close>. Messages with a fixed text go through \<open>console_print\<close>.
\<close>

definition console_print_markup ::
  "(console_event \<Rightarrow> bool) \<Rightarrow> console_event \<Rightarrow> world \<Rightarrow> exn option \<times> world" where
  "console_print_markup markup_error ev w =
     (if markup_error ev then (Some MarkupError, w) else (None, console_print ev w))"

definition REPLSession_init :: "Config \<Rightarrow> string option \<Rightarrow> world \<Rightarrow> (exn + REPLSession) \<times> world" where
  "REPLSession_init cfg agent_name_arg w =
     (let agent_name = (case or_str agent_name_arg (Some (default_agent cfg)) of
                          None \<Rightarrow> [] | Some n \<Rightarrow> n)
      in case get_agent w agent_name of
           Some a \<Rightarrow>
             (let (sid, w1) = uuid4 w in (Inr (REPLSession.make a sid []), w1))
         | None \<Rightarrow>
             if agent_name = ''default'' then
               (case create_agent ''default'' ''general'' (Some ''Default agent'')
                       (console_print CreatingDefaultAgent w) of
                  (Inl e, w1) \<Rightarrow> (Inl e, w1)
                | (Inr a, w1) \<Rightarrow>
                    (let (sid, w2) = uuid4 w1 in (Inr (REPLSession.make a sid []), w2)))
             else (Inl (ValueError ''Agent not found''), w))"

text \<open>
  \<open>print_welcome\<close>: four prints, the second of which shows the agent's name and type.
  \<open>Some e\<close>: the print raised \<open>e\<close>, after what was printed before it.
\<close>

definition print_welcome :: "(console_event \<Rightarrow> bool) \<Rightarrow> REPLSession \<Rightarrow> world \<Rightarrow> exn option \<times> world" where
  "print_welcome markup_error self w =
     (case console_print_markup markup_error
             (UsingAgent (name (agent self)) (agent_type (agent self)))
             (console_print WelcomeBanner w) of
        (Some e, w1) \<Rightarrow> (Some e, w1)
      | (None, w1) \<Rightarrow> (None, console_print WelcomeCommands (console_print WelcomeHint w1)))"

definition print_help :: "world \<Rightarrow> world" where
  "print_help w = console_print HelpText w"

text \<open>The loop of \<open>print_history\<close>: for each message the role line, then the content.\<close>

fun print_entries :: "(console_event \<Rightarrow> bool) \<Rightarrow> Message list \<Rightarrow> world \<Rightarrow> exn option \<times> world" where
  "print_entries markup_error [] w = (None, w)"
| "print_entries markup_error (msg # rest) w =
     (case console_print_markup markup_error (HistoryRole (role msg)) w of
        (Some e, w1) \<Rightarrow> (Some e, w1)
      | (None, w1) \<Rightarrow>
          (case console_print_markup markup_error (HistoryContent (content msg)) w1 of
             (Some e, w2) \<Rightarrow> (Some e, w2)
           | (None, w2) \<Rightarrow> print_entries markup_error rest w2))"

definition print_history :: "(console_event \<Rightarrow> bool) \<Rightarrow> REPLSession \<Rightarrow> world \<Rightarrow> exn option \<times> world" where
  "print_history markup_error self w =
     (if messages self = [] then (None, console_print NoMessagesYet w)
      else print_entries markup_error (messages self) (console_print HistoryHeader w))"

text \<open>
  \<open>save_session\<close>: a new row with the session's identifier is added and committed. The
  identifier is the primary key of the table, so the commit raises when a row with it is
  already stored; the \<open>except\<close> clause logs that and prints it, and nothing is stored. The
  print in the \<open>except\<close> clause shows the exception's text and can raise in its turn. The
  message of success shows the identifier only, which holds no bracket.
\<close>

definition save_session :: "(console_event \<Rightarrow> bool) \<Rightarrow> REPLSession \<Rightarrow> world \<Rightarrow> exn option \<times> world" where
  "save_session markup_error self w =
     (if messages self = [] then (None, console_print NoMessagesToSave w)
      else
        (let messages_data = map (\<lambda>msg. (role msg, content msg, utcnow w)) (messages self);
             session_model = SessionModel.make (session_id self)
                               (''REPL Session - '' @ utcnow w) (agent_id (agent self)) messages_data
         in if session_id self \<in> set (map sm_id (sessions w)) then
              console_print_markup markup_error (SaveFailed IntegrityError)
                (logger (LogSaveFailed IntegrityError) w)
            else
              (None, console_print (SessionSaved (session_id self))
                       (w\<lparr>sessions := sessions w @ [session_model]\<rparr>))))"

text \<open>
  \<open>handle_command\<close>: \<open>Some e\<close> when the command raises \<open>e\<close>. On an agent switch the session
  has already been changed when the confirmation is printed.
\<close>

definition handle_command ::
  "(console_event \<Rightarrow> bool) \<Rightarrow> Config \<Rightarrow> string \<Rightarrow> REPLSession \<Rightarrow> world
     \<Rightarrow> exn option \<times> REPLSession \<times> world" where
  "handle_command markup_error cfg command self w =
     (case split command of
        [] \<Rightarrow> (Some IndexError, self, w)
      | part0 # parts1 \<Rightarrow>
          (let cmd = lower part0 in
           if cmd = ''/exit'' \<or> cmd = ''/quit'' then (Some EOFError, self, w)
           else if cmd = ''/help'' then (None, self, print_help w)
           else if cmd = ''/clear'' then
             (None, self\<lparr>messages := []\<rparr>, console_print HistoryCleared w)
           else if cmd = ''/save'' then
             (case save_session markup_error self w of (r, w1) \<Rightarrow> (r, self, w1))
           else if cmd = ''/history'' then
             (case print_history markup_error self w of (r, w1) \<Rightarrow> (r, self, w1))
           else if cmd = ''/agent'' then
             (case parts1 of
                new_agent_name # others \<Rightarrow>
                  (case get_agent w new_agent_name of
                     Some new_agent \<Rightarrow>
                       (case (if auto_save cfg \<and> messages self \<noteq> []
                              then save_session markup_error self w else (None, w)) of
                          (Some e, w1) \<Rightarrow> (Some e, self, w1)
                        | (None, w1) \<Rightarrow>
                            (let (sid, w2) = uuid4 w1 in
                             case console_print_markup markup_error (SwitchedAgent (name new_agent)) w2 of
                               (r, w3) \<Rightarrow>
                                 (r, self\<lparr>agent := new_agent, session_id := sid, messages := []\<rparr>, w3)))
                   | None \<Rightarrow>
                       (case console_print_markup markup_error (AgentNotFound new_agent_name) w of
                          (r, w1) \<Rightarrow> (r, self, w1)))
              | [] \<Rightarrow>
                  (case console_print_markup markup_error
                          (CurrentAgent (name (agent self)) (agent_type (agent self))) w of
                     (r, w1) \<Rightarrow> (r, self, w1)))
           else
             (case console_print_markup markup_error (UnknownCommand cmd) w of
                (Some e, w1) \<Rightarrow> (Some e, self, w1)
              | (None, w1) \<Rightarrow> (None, self, console_print HelpHint w1))))"

text \<open>
  The \<open>while True\<close> loop of \<open>run\<close>, over the inputs the prompt will deliver. The result is
  \<open>None\<close> when the loop is left by \<open>break\<close> and \<open>Some e\<close> when \<open>e\<close> escapes it: the inner
  \<open>try\<close> catches \<open>KeyboardInterrupt\<close> (hint, next round) and \<open>EOFError\<close> (\<open>break\<close>) only.
\<close>

fun run_loop ::
  "(console_event \<Rightarrow> bool) \<Rightarrow> Config \<Rightarrow> (string \<Rightarrow> json option) \<Rightarrow> user_input list
     \<Rightarrow> REPLSession \<Rightarrow> world \<Rightarrow> exn option \<times> REPLSession \<times> world" where
  "run_loop markup_error cfg loads [] self w = (None, self, w)"
| "run_loop markup_error cfg loads (CtrlD # rest) self w = (None, self, w)"
| "run_loop markup_error cfg loads (CtrlC # rest) self w =
     run_loop markup_error cfg loads rest self (console_print InterruptHint w)"
| "run_loop markup_error cfg loads (Line text # rest) self w =
     (let user_input = strip text in
      if user_input = [] then run_loop markup_error cfg loads rest self w
      else if startswith user_input ''/'' then
        (case handle_command markup_error cfg user_input self w of
           (None, self1, w1) \<Rightarrow> run_loop markup_error cfg loads rest self1 w1
         | (Some e, self1, w1) \<Rightarrow>
             if e = KeyboardInterrupt then
               run_loop markup_error cfg loads rest self1 (console_print InterruptHint w1)
             else if e = EOFError then (None, self1, w1)
             else (Some e, self1, w1))
      else
        (let self1 = self\<lparr>messages := messages self @ [Message.make ''user'' (JStr user_input) None]\<rparr>;
             w1 = console_print AssistantHeader w
         in case chat cfg loads (agent self1) user_input (Some (butlast (messages self1))) True w1 of
              (Inr response, agent2, w2) \<Rightarrow>
                run_loop markup_error cfg loads rest
                  (self1\<lparr>agent := agent2,
                         messages := messages self1 @ [Message.make ''assistant'' response None]\<rparr>)
                  (console_print EmptyLine w2)
            | (Inl e, agent2, w2) \<Rightarrow>
                if e = KeyboardInterrupt then
                  run_loop markup_error cfg loads rest (self1\<lparr>agent := agent2\<rparr>)
                    (console_print InterruptHint w2)
                else if e = EOFError then (None, self1\<lparr>agent := agent2\<rparr>, w2)
                else (Some e, self1\<lparr>agent := agent2\<rparr>, w2)))"

text \<open>
  The \<open>finally\<close> clause of \<open>run\<close>: automatic save, then the farewell. \<open>Some e\<close>: the save
  raised \<open>e\<close> and the farewell was not printed.
\<close>

definition run_finally ::
  "(console_event \<Rightarrow> bool) \<Rightarrow> Config \<Rightarrow> REPLSession \<Rightarrow> world \<Rightarrow> exn option \<times> world" where
  "run_finally markup_error cfg self w =
     (case (if auto_save cfg \<and> messages self \<noteq> [] then save_session markup_error self w
            else (None, w)) of
        (Some e, w1) \<Rightarrow> (Some e, w1)
      | (None, w1) \<Rightarrow> (None, console_print Goodbye w1))"

text \<open>
  \<open>run\<close>. The welcome is printed before the \<open>try\<close>: when it raises, \<open>run\<close> raises and the
  \<open>finally\<close> clause is not run. An exception raised by the \<open>finally\<close> clause takes the place
  of the one that left the loop.
\<close>

definition run ::
  "(console_event \<Rightarrow> bool) \<Rightarrow> Config \<Rightarrow> (string \<Rightarrow> json option) \<Rightarrow> user_input list
     \<Rightarrow> REPLSession \<Rightarrow> world \<Rightarrow> exn option \<times> REPLSession \<times> world" where
  "run markup_error cfg loads inputs self w =
     (case print_welcome markup_error self w of
        (Some e, w0) \<Rightarrow> (Some e, self, w0)
      | (None, w0) \<Rightarrow>
          (case run_loop markup_error cfg loads inputs self w0 of
             (r, self1, w1) \<Rightarrow>
               (case run_finally markup_error cfg self1 w1 of
                  (Some e, w2) \<Rightarrow> (Some e, self1, w2)
                | (None, w2) \<Rightarrow> (r, self1, w2))))"

text \<open>
  \<open>start_repl\<close>: how control leaves it, \<open>Returned\<close> or \<open>Raised e\<close>. The handler for
  \<open>Exception\<close> logs the error and then calls \<open>console.print\<close> with the keyword \<open>err\<close>, which
  that method does not have: the call raises \<open>TypeError\<close>, nothing is printed and the
  \<open>sys.exit(1)\<close> after it is not reached.
\<close>

datatype exit_status = Returned | Raised exn

definition except_handler :: "exn \<Rightarrow> world \<Rightarrow> exit_status \<times> world" where
  "except_handler e w =
     (if is_Exception e then (Raised TypeError, logger (LogREPLError e) w)
      else (Raised e, w))"

definition start_repl ::
  "(console_event \<Rightarrow> bool) \<Rightarrow> Config \<Rightarrow> (string \<Rightarrow> json option) \<Rightarrow> string option
     \<Rightarrow> user_input list \<Rightarrow> world \<Rightarrow> exit_status \<times> world" where
  "start_repl markup_error cfg loads agent_arg inputs w =
     (case REPLSession_init cfg agent_arg w of
        (Inl e, w1) \<Rightarrow> except_handler e w1
      | (Inr session, w1) \<Rightarrow>
          (case run markup_error cfg loads inputs session w1 of
             (None, session1, w2) \<Rightarrow> (Returned, w2)
           | (Some e, session1, w2) \<Rightarrow> except_handler e w2))"

section \<open>Notions used to state the properties\<close>

text \<open>The values a stream yields, in order, and the history \<open>chat\<close> is given, as a list.\<close>

fun chunks_of :: "stream_event list \<Rightarrow> json list" where
  "chunks_of [] = []"
| "chunks_of (Chunk v # evs) = v # chunks_of evs"
| "chunks_of (Warning e # evs) = chunks_of evs"

fun warnings_of :: "stream_event list \<Rightarrow> exn list" where
  "warnings_of [] = []"
| "warnings_of (Chunk v # evs) = warnings_of evs"
| "warnings_of (Warning e # evs) = e # warnings_of evs"

definition history_list :: "Message list option \<Rightarrow> Message list" where
  "history_list history = (case history of None \<Rightarrow> [] | Some h \<Rightarrow> h)"

text \<open>
  \<open>attempt_at loads w p k\<close>: what the request number \<open>k\<close> (counted from 0) made from world
  \<open>w\<close> with payload \<open>p\<close> comes to. \<open>failed\<close>: it ended in an \<open>Exception\<close>.
\<close>

definition attempt_at ::
  "(string \<Rightarrow> json option) \<Rightarrow> world \<Rightarrow> payload \<Rightarrow> nat \<Rightarrow> exn + CompletionResponse" where
  "attempt_at loads w p k = attempt_result loads (on_post w (length (requests w) + k) p)"

definition failed :: "exn + CompletionResponse \<Rightarrow> bool" where
  "failed x = (case x of Inl e \<Rightarrow> is_Exception e | Inr r \<Rightarrow> False)"

section \<open>Sample data\<close>

definition sample_config :: Config where
  "sample_config = Config.make ''default''
     (AIServiceConfig.make ''openai'' ''gpt-3.5-turbo'' 60 3 (Some ''sk-test'') None) True"

definition svc3 :: OpenAIService where
  "svc3 = OpenAIService.make ''sk-test'' ''https://api.openai.com/v1'' 60 3 ''gpt-3.5-turbo''"

definition hi_body :: string where
  \<open>hi_body = ''{"choices":[{"message":{"role":"assistant","content":"hi there"},"finish_reason":"stop"}]}''\<close>

definition hi_json :: json where
  "hi_json = JObj [(''choices'', JArr [JObj [
     (''message'', JObj [(''role'', JStr ''assistant''), (''content'', JStr ''hi there'')]),
     (''finish_reason'', JStr ''stop'')]])]"

definition hi_response :: CompletionResponse where
  "hi_response = CompletionResponse.make (JStr ''hi there'') (JStr ''assistant'') (JStr ''stop'') JNull None"

definition chunk_hi :: string where
  \<open>chunk_hi = ''{"choices":[{"delta":{"content":"hi"}}]}''\<close>

definition chunk_there :: string where
  \<open>chunk_there = ''{"choices":[{"delta":{"content":" there"}}]}''\<close>

definition chunk_null_choice :: string where
  \<open>chunk_null_choice = ''{"choices":[null]}''\<close>

definition chunk_json :: "string \<Rightarrow> json" where
  "chunk_json text = JObj [(''choices'', JArr [JObj [(''delta'', JObj [(''content'', JStr text)])]])]"

definition hi_line :: string where
  "hi_line = ''data: '' @ chunk_hi"

definition there_line :: string where
  "there_line = ''data: '' @ chunk_there"

definition null_choice_line :: string where
  "null_choice_line = ''data: '' @ chunk_null_choice"

text \<open>The value of \<open>json.loads\<close> on the texts used below (\<open>None\<close>: not JSON).\<close>

definition sample_loads :: "string \<Rightarrow> json option" where
  "sample_loads = map_of
     [(hi_body, hi_json),
      (chunk_hi, chunk_json ''hi''),
      (chunk_there, chunk_json '' there''),
      (chunk_null_choice, JObj [(''choices'', JArr [JNull])])]"

definition empty_world :: world where
  "empty_world = world.make
     (\<lambda>n p. PostRaises (TransportError ''connection refused''))
     (\<lambda>n p. StreamRaises (TransportError ''connection refused''))
     [] [] [] [] [] [] 0 ''2024-01-01T00:00:00''"

text \<open>A provider that times out, then answers 500, then answers.\<close>

definition flaky_world :: world where
  "flaky_world = empty_world\<lparr>
     on_post := (\<lambda>n p. if n = 0 then PostRaises (TransportError ''timed out'')
                       else if n = 1 then PostResponse 500 []
                       else PostResponse 200 hi_body) \<rparr>"

definition hello :: "Message list" where
  "hello = [Message.make ''user'' (JStr ''hello'') None]"

definition sample_agent :: Agent where
  "sample_agent = Agent.make 7 ''default'' ''general'' (Some ''Default agent'') [] ''enabled'' None"

text \<open>A provider that streams two content events, a blank line and the sentinel.\<close>

definition streaming_world :: world where
  "streaming_world = empty_world\<lparr>
     on_stream := (\<lambda>n p. StreamResponse 200
                     [hi_line, [], there_line, ''data: [DONE]''] None),
     on_post := (\<lambda>n p. PostResponse 200 hi_body) \<rparr>"

text \<open>A provider whose middle event has a first choice that is \<open>null\<close>.\<close>

definition null_choice_world :: world where
  "null_choice_world = empty_world\<lparr>
     on_stream := (\<lambda>n p. StreamResponse 200
                     [hi_line, null_choice_line, there_line]
                     None) \<rparr>"

text \<open>A provider whose middle event is not JSON.\<close>

definition garbled_world :: world where
  "garbled_world = empty_world\<lparr>
     on_stream := (\<lambda>n p. StreamResponse 200
                     [hi_line, ''data: {oops'', there_line] None) \<rparr>"

text \<open>A provider that sends a content event after the sentinel line.\<close>

definition sentinel_world :: world where
  "sentinel_world = empty_world\<lparr>
     on_stream := (\<lambda>n p. StreamResponse 200
                     [hi_line, ''data: [DONE]'', there_line] None) \<rparr>"

text \<open>A configuration file that sets \<open>max_retries: 0\<close>.\<close>

definition zero_retry_config :: Config where
  "zero_retry_config = Config.make ''default''
     (AIServiceConfig.make ''openai'' ''gpt-3.5-turbo'' 60 0 (Some ''sk-test'') None) True"

text \<open>A session on the sample agent whose transcript holds one user message.\<close>

definition sample_session :: REPLSession where
  "sample_session = REPLSession.make sample_agent 0 hello"

text \<open>A session on the sample agent that has just started.\<close>

definition fresh_session :: REPLSession where
  "fresh_session = REPLSession.make sample_agent 0 []"

text \<open>
  The agent and the session that \<open>start_repl\<close> creates when the store is empty and no
  agent is named.
\<close>

definition created_agent :: Agent where
  "created_agent = Agent.make 0 ''default'' ''general'' (Some ''Default agent'') [] ''enabled'' None"

definition first_session :: REPLSession where
  "first_session = REPLSession.make created_agent 1 []"

text \<open>
  What the console does with the messages used below: it raises \<open>MarkupError\<close> for the
  "not found" message about the name \<open>[/]\<close>, a closing tag with nothing to close, and
  prints the others.
\<close>

definition sample_markup_error :: "console_event \<Rightarrow> bool" where
  "sample_markup_error ev = (ev = AgentNotFound ''[/]'')"

section \<open>Properties of the completion client\<close>

lemma post_simps:
  "fst (post w p) = on_post w (length (requests w)) p"
  "requests (snd (post w p)) = requests w @ [p]"
  "on_post (snd (post w p)) = on_post w"
  by (simp_all add: post_def)

lemma logger_simps [simp]:
  "requests (logger e w) = requests w"
  "on_post (logger e w) = on_post w"
  by (simp_all add: logger_def)

lemma attempt_at_step:
  "attempt_at loads (logger e (snd (post w p))) p k = attempt_at loads w p (Suc k)"
  by (simp add: attempt_at_def post_def)

lemma retry_loop_fail_step:
  assumes "attempt < max_retries self" "failed (attempt_at loads w p 0)"
  shows "\<exists>e le. attempt_at loads w p 0 = Inl e \<and>
     retry_loop loads self p attempt w =
       (if attempt = max_retries self - 1 then (Inl e, logger le (snd (post w p)))
        else retry_loop loads self p (attempt + 1) (logger le (snd (post w p))))"
proof -
  from assms(2) obtain e where e: "attempt_at loads w p 0 = Inl e" "is_Exception e"
    by (auto simp: failed_def split: sum.splits)
  then have ar: "attempt_result loads (on_post w (length (requests w)) p) = Inl e"
    by (simp add: attempt_at_def)
  show ?thesis
  proof (cases e)
    case (HTTPStatusError s)
    with assms(1) ar e show ?thesis
      by (subst retry_loop.simps) (auto simp: post_def Let_def)
  qed (use assms(1) ar e in \<open>subst retry_loop.simps, auto simp: post_def Let_def\<close>)+
qed

lemma retry_loop_success_step:
  assumes "attempt < max_retries self" "attempt_at loads w p 0 = Inr r"
  shows "retry_loop loads self p attempt w = (Inr r, snd (post w p))"
  using assms by (subst retry_loop.simps) (simp add: attempt_at_def post_def)

lemma retry_loop_succeeds:
  assumes "\<forall>j<k. failed (attempt_at loads w p j)"
    and "attempt_at loads w p k = Inr r"
    and "attempt + int k < max_retries self"
  shows "fst (retry_loop loads self p attempt w) = Inr r \<and>
         requests (snd (retry_loop loads self p attempt w)) = requests w @ replicate (Suc k) p"
  using assms
proof (induction k arbitrary: attempt w)
  case 0
  then show ?case by (simp add: retry_loop_success_step post_simps)
next
  case (Suc k)
  from Suc.prems have lt: "attempt < max_retries self" and f0: "failed (attempt_at loads w p 0)"
    by auto
  from retry_loop_fail_step[OF lt f0] obtain e le where
    step: "retry_loop loads self p attempt w =
           retry_loop loads self p (attempt + 1) (logger le (snd (post w p)))"
    using Suc.prems(3) by auto
  let ?w = "logger le (snd (post w p))"
  have a: "\<forall>j<k. failed (attempt_at loads ?w p j)"
    using Suc.prems(1) by (simp add: attempt_at_step)
  have b: "attempt_at loads ?w p k = Inr r"
    using Suc.prems(2) by (simp add: attempt_at_step)
  have c: "(attempt + 1) + int k < max_retries self"
    using Suc.prems(3) by simp
  from Suc.IH[OF a b c] show ?case
    by (simp add: step post_simps replicate_append_same)
qed

lemma retry_loop_exhausts:
  assumes "\<forall>j<Suc m. failed (attempt_at loads w p j)"
    and "attempt + int m = max_retries self - 1"
  shows "fst (retry_loop loads self p attempt w) = attempt_at loads w p m \<and>
         requests (snd (retry_loop loads self p attempt w)) = requests w @ replicate (Suc m) p"
  using assms
proof (induction m arbitrary: attempt w)
  case 0
  then have lt: "attempt < max_retries self" and f0: "failed (attempt_at loads w p 0)"
    by auto
  from retry_loop_fail_step[OF lt f0] 0 show ?case
    by (auto simp: post_simps)
next
  case (Suc m)
  then have lt: "attempt < max_retries self" and f0: "failed (attempt_at loads w p 0)"
    by auto
  from retry_loop_fail_step[OF lt f0] obtain e le where
    step: "retry_loop loads self p attempt w =
           retry_loop loads self p (attempt + 1) (logger le (snd (post w p)))"
    using Suc.prems(2) by auto
  let ?w = "logger le (snd (post w p))"
  have a: "\<forall>j<Suc m. failed (attempt_at loads ?w p j)"
    using Suc.prems(1) by (simp add: attempt_at_step)
  have c: "(attempt + 1) + int m = max_retries self - 1"
    using Suc.prems(2) by simp
  from Suc.IH[OF a c] show ?case
    by (simp add: step post_simps attempt_at_step replicate_append_same)
qed

lemma retry_loop_bound:
  "length (requests (snd (retry_loop loads self p attempt w)))
     \<le> length (requests w) + nat (max_retries self - attempt)"
proof (induction "nat (max_retries self - attempt)" arbitrary: attempt w)
  case 0
  then show ?case by (subst retry_loop.simps) simp
next
  case (Suc n)
  then have lt: "attempt < max_retries self" by linarith
  have ih: "length (requests (snd (retry_loop loads self p (attempt + 1) (logger le (snd (post w p))))))
              \<le> length (requests w) + nat (max_retries self - attempt)" for le
  proof -
    have "n = nat (max_retries self - (attempt + 1))" using Suc(2) by linarith
    from Suc(1)[OF this, of "logger le (snd (post w p))"] lt show ?thesis
      by (simp add: post_simps)
  qed
  show ?case
  proof (cases "attempt_result loads (on_post w (length (requests w)) p)")
    case (Inr r)
    with lt show ?thesis by (subst retry_loop.simps) (simp add: post_def)
  next
    case (Inl e)
    show ?thesis
    proof (cases "is_Exception e")
      case False
      then have "e = KeyboardInterrupt" by (cases e) simp_all
      with lt Inl show ?thesis by (subst retry_loop.simps) (simp add: post_def)
    next
      case True
      then have "failed (attempt_at loads w p 0)"
        using Inl by (simp add: failed_def attempt_at_def)
      from retry_loop_fail_step[OF lt this] obtain e' le where
        "retry_loop loads self p attempt w =
           (if attempt = max_retries self - 1 then (Inl e', logger le (snd (post w p)))
            else retry_loop loads self p (attempt + 1) (logger le (snd (post w p))))"
        by blast
      with ih[of le] lt show ?thesis by (auto simp: post_simps)
    qed
  qed
qed

text \<open>
  Claim C1. With \<open>max_retries = n \<ge> 1\<close>, \<open>complete\<close> makes at most \<open>n\<close> requests. When
  request number \<open>k\<close> (counted from 0, \<open>k < n\<close>) is the first to succeed, its result is
  returned and exactly \<open>k + 1\<close> requests were made, all with the same payload. When all
  \<open>n\<close> requests fail, the error of the last one is raised after exactly \<open>n\<close> requests. A
  transport failure and a response with a status outside 200..299 both count as failed
  requests, whatever the status is.
\<close>

theorem complete_retry_policy:
  assumes "1 \<le> max_retries self"
  shows "length (requests (snd (complete loads self msgs model temperature max_tokens kwargs w)))
           \<le> length (requests w) + nat (max_retries self)
       \<and> (\<forall>k r. int k < max_retries self
             \<and> (\<forall>j<k. failed (attempt_at loads w
                    (complete_payload self msgs model temperature max_tokens kwargs) j))
             \<and> attempt_at loads w
                    (complete_payload self msgs model temperature max_tokens kwargs) k = Inr r
           \<longrightarrow> fst (complete loads self msgs model temperature max_tokens kwargs w) = Inr r
             \<and> requests (snd (complete loads self msgs model temperature max_tokens kwargs w))
                 = requests w @ replicate (Suc k)
                     (complete_payload self msgs model temperature max_tokens kwargs))
       \<and> ((\<forall>j. int j < max_retries self \<longrightarrow> failed (attempt_at loads w
                    (complete_payload self msgs model temperature max_tokens kwargs) j))
           \<longrightarrow> fst (complete loads self msgs model temperature max_tokens kwargs w)
                 = attempt_at loads w
                     (complete_payload self msgs model temperature max_tokens kwargs)
                     (nat (max_retries self) - 1)
             \<and> requests (snd (complete loads self msgs model temperature max_tokens kwargs w))
                 = requests w @ replicate (nat (max_retries self))
                     (complete_payload self msgs model temperature max_tokens kwargs))
       \<and> (\<forall>msg. failed (attempt_result loads (PostRaises (TransportError msg))))
       \<and> (\<forall>status body. \<not> (200 \<le> status \<and> status \<le> 299)
             \<longrightarrow> failed (attempt_result loads (PostResponse status body)))"
proof (intro conjI allI impI)
  show "length (requests (snd (complete loads self msgs model temperature max_tokens kwargs w)))
           \<le> length (requests w) + nat (max_retries self)"
    using retry_loop_bound[of loads self _ 0 w] by (simp add: complete_def)
next
  fix k r
  assume h: "int k < max_retries self
     \<and> (\<forall>j<k. failed (attempt_at loads w
            (complete_payload self msgs model temperature max_tokens kwargs) j))
     \<and> attempt_at loads w
            (complete_payload self msgs model temperature max_tokens kwargs) k = Inr r"
  then have "0 + int k < max_retries self" by simp
  from retry_loop_succeeds[OF _ _ this] h
  show "fst (complete loads self msgs model temperature max_tokens kwargs w) = Inr r"
    and "requests (snd (complete loads self msgs model temperature max_tokens kwargs w))
           = requests w @ replicate (Suc k)
               (complete_payload self msgs model temperature max_tokens kwargs)"
    by (simp_all add: complete_def)
next
  assume h: "\<forall>j. int j < max_retries self \<longrightarrow> failed (attempt_at loads w
                (complete_payload self msgs model temperature max_tokens kwargs) j)"
  obtain m where m: "nat (max_retries self) = Suc m"
    using assms by (cases "nat (max_retries self)") auto
  then have a: "\<forall>j<Suc m. failed (attempt_at loads w
                (complete_payload self msgs model temperature max_tokens kwargs) j)"
    using h by auto
  have b: "0 + int m = max_retries self - 1" using m by linarith
  from retry_loop_exhausts[OF a b]
  show "fst (complete loads self msgs model temperature max_tokens kwargs w)
          = attempt_at loads w
              (complete_payload self msgs model temperature max_tokens kwargs)
              (nat (max_retries self) - 1)"
    and "requests (snd (complete loads self msgs model temperature max_tokens kwargs w))
          = requests w @ replicate (nat (max_retries self))
              (complete_payload self msgs model temperature max_tokens kwargs)"
    by (simp_all add: complete_def m)
next
  fix msg show "failed (attempt_result loads (PostRaises (TransportError msg)))"
    by (simp add: failed_def attempt_result_def)
next
  fix status :: int and body
  assume "\<not> (200 \<le> status \<and> status \<le> 299)"
  then show "failed (attempt_result loads (PostResponse status body))"
    by (auto simp: failed_def attempt_result_def raise_for_status_def)
qed

lemma sample_loads_hi [simp]: "sample_loads hi_body = Some hi_json"
  by (simp add: sample_loads_def)

lemma extract_hi [simp]: "extract_response hi_json = Inr hi_response"
  by (simp add: extract_response_def hi_json_def hi_response_def dict_get_def dict_get_default_def)

lemma flaky_attempts:
  "failed (attempt_at sample_loads flaky_world p 0)"
  "failed (attempt_at sample_loads flaky_world p (Suc 0))"
  "attempt_at sample_loads flaky_world p 2 = Inr hi_response"
  by (simp_all add: attempt_at_def flaky_world_def empty_world_def world.defs failed_def
        attempt_result_def raise_for_status_def)

theorem complete_retry_policy_witness:
  "1 \<le> max_retries svc3
   \<and> failed (attempt_at sample_loads flaky_world (complete_payload svc3 hello JNull (JFloat 7 (- 1)) JNull Map.empty) 0)
   \<and> failed (attempt_at sample_loads flaky_world (complete_payload svc3 hello JNull (JFloat 7 (- 1)) JNull Map.empty) 1)
   \<and> attempt_at sample_loads flaky_world (complete_payload svc3 hello JNull (JFloat 7 (- 1)) JNull Map.empty) 2
       = Inr hi_response
   \<and> fst (complete sample_loads svc3 hello JNull (JFloat 7 (- 1)) JNull Map.empty flaky_world) = Inr hi_response
   \<and> length (requests (snd (complete sample_loads svc3 hello JNull (JFloat 7 (- 1)) JNull Map.empty flaky_world))) = 3"
proof -
  let ?p = "complete_payload svc3 hello JNull (JFloat 7 (- 1)) JNull Map.empty"
  have n: "1 \<le> max_retries svc3" by (simp add: svc3_def OpenAIService.defs)
  have k: "int 2 < max_retries svc3" by (simp add: svc3_def OpenAIService.defs)
  have f: "\<forall>j<2. failed (attempt_at sample_loads flaky_world ?p j)"
    using flaky_attempts(1,2)[of ?p] by (auto simp: less_Suc_eq numeral_2_eq_2)
  have rq: "requests flaky_world = []" by (simp add: flaky_world_def empty_world_def world.defs)
  from complete_retry_policy[OF n, of sample_loads hello JNull "JFloat 7 (- 1)" JNull Map.empty flaky_world]
  have "int 2 < max_retries svc3
         \<and> (\<forall>j<2. failed (attempt_at sample_loads flaky_world ?p j))
         \<and> attempt_at sample_loads flaky_world ?p 2 = Inr hi_response
       \<longrightarrow> fst (complete sample_loads svc3 hello JNull (JFloat 7 (- 1)) JNull Map.empty flaky_world) = Inr hi_response
         \<and> requests (snd (complete sample_loads svc3 hello JNull (JFloat 7 (- 1)) JNull Map.empty flaky_world))
             = requests flaky_world @ replicate (Suc 2) ?p"
    by blast
  with k f flaky_attempts(3)[of ?p] rq n flaky_attempts(1,2)[of ?p] show ?thesis by simp
qed

section \<open>Properties of \<open>Agent.chat\<close>\<close>

lemma print_simps [simp]:
  "stdout (print s w) = stdout w @ [s]"
  "requests (print s w) = requests w"
  "log (print s w) = log w"
  by (simp_all add: print_def)

lemma logger_stdout [simp]: "stdout (logger e w) = stdout w"
  by (simp add: logger_def)

lemma sample_service [simp]:
  "ai_service sample_config sample_agent = (Inr svc3, sample_agent\<lparr>ai_service_cache := Some svc3\<rparr>)"
  by (simp add: ai_service_def sample_agent_def sample_config_def svc3_def OpenAIService_init_def
        or_str_def or_int_def dict_get_def dict_get_default_def
        Agent.defs Config.defs AIServiceConfig.defs OpenAIService.defs)

lemma complete_flaky:
  "fst (complete sample_loads svc3 msgs model temperature max_tokens kwargs flaky_world) = Inr hi_response"
proof -
  let ?p = "complete_payload svc3 msgs model temperature max_tokens kwargs"
  have f: "\<forall>j<2. failed (attempt_at sample_loads flaky_world ?p j)"
    using flaky_attempts(1,2)[of ?p] by (auto simp: less_Suc_eq numeral_2_eq_2)
  have k: "0 + int 2 < max_retries svc3" by (simp add: svc3_def OpenAIService.defs)
  from retry_loop_succeeds[OF f flaky_attempts(3) k] show ?thesis
    by (simp add: complete_def)
qed

text \<open>
  Claim C6. When the client is available and its \<open>complete\<close> call returns a result,
  \<open>chat\<close> with \<open>stream = False\<close> returns the result's content as it is, and leaves the
  world as \<open>complete\<close> left it. The call is made on the message list \<open>chat\<close> built, with
  the model, temperature and token limit read from the agent's configuration.
\<close>

theorem chat_returns_content:
  assumes "ai_service cfg self = (Inr svc, self1)"
    and "fst (complete loads svc (build_messages self message history)
               (dict_get (config self) ''model'')
               (dict_get_default (config self) ''temperature'' (JFloat 7 (- 1)))
               (dict_get (config self) ''max_tokens'') Map.empty w) = Inr response"
  shows "fst (chat cfg loads self message history False w) = Inr (cr_content response)
       \<and> snd (snd (chat cfg loads self message history False w))
           = snd (complete loads svc (build_messages self message history)
               (dict_get (config self) ''model'')
               (dict_get_default (config self) ''temperature'' (JFloat 7 (- 1)))
               (dict_get (config self) ''max_tokens'') Map.empty w)"
  using assms by (auto simp: chat_def Let_def split: prod.splits sum.splits)

theorem chat_returns_content_witness:
  "ai_service sample_config sample_agent = (Inr svc3, sample_agent\<lparr>ai_service_cache := Some svc3\<rparr>)
   \<and> fst (complete sample_loads svc3 (build_messages sample_agent ''hello'' None)
               (dict_get (config sample_agent) ''model'')
               (dict_get_default (config sample_agent) ''temperature'' (JFloat 7 (- 1)))
               (dict_get (config sample_agent) ''max_tokens'') Map.empty flaky_world) = Inr hi_response
   \<and> fst (chat sample_config sample_loads sample_agent ''hello'' None False flaky_world)
       = Inr (JStr ''hi there'')"
  using chat_returns_content[where message="''hello''" and history=None and w=flaky_world
          and loads=sample_loads, OF sample_service complete_flaky]
    complete_flaky
  by (simp add: hi_response_def CompletionResponse.defs)

lemma consume_requests [simp]: "requests (snd (consume evs final acc w)) = requests w"
  by (induction evs final acc w rule: consume.induct) (auto split: json.splits)

lemma complete_stream_requests:
  "requests (snd (complete_stream loads svc msgs model temperature max_tokens kwargs w))
     = requests w @ [stream_payload svc msgs model temperature max_tokens kwargs]"
  by (auto simp: complete_stream_def open_stream_def split: stream_outcome.splits sum.splits)

lemma complete_stream_stdout:
  "stdout (snd (complete_stream loads svc msgs model temperature max_tokens kwargs w)) = stdout w"
  by (auto simp: complete_stream_def open_stream_def split: stream_outcome.splits sum.splits)

lemma payload_messages:
  "kwargs ''messages'' = None \<Longrightarrow>
     stream_payload svc msgs model temperature max_tokens kwargs ''messages'' = Some (openai_messages msgs)"
  "kwargs ''messages'' = None \<Longrightarrow>
     complete_payload svc msgs model temperature max_tokens kwargs ''messages'' = Some (openai_messages msgs)"
  by (simp_all add: stream_payload_def complete_payload_def Let_def map_add_def)

lemma build_messages_list:
  "build_messages self message history =
     Message.make ''system'' (get_system_prompt self) None
       # history_list history @ [Message.make ''user'' (JStr message) None]"
  by (simp add: build_messages_def history_list_def split: option.splits)

text \<open>
  Claim C7. When the history holds no system message, the list \<open>chat\<close> builds is the
  system message with the agent's resolved prompt, then the history, then the user
  message with the given text: one system message in all, at the head, and the new user
  message last. This list is the one handed to \<open>complete\<close> (non-streaming) and the one
  serialised into the single request that streaming makes.
\<close>

theorem chat_message_list:
  assumes "\<forall>m \<in> set (history_list history). role m \<noteq> ''system''"
    and "ai_service cfg self = (Inr svc, self1)"
  shows "build_messages self message history
           = Message.make ''system'' (get_system_prompt self) None
               # history_list history @ [Message.make ''user'' (JStr message) None]
       \<and> length (filter (\<lambda>m. role m = ''system'') (build_messages self message history)) = 1
       \<and> hd (build_messages self message history)
           = Message.make ''system'' (get_system_prompt self) None
       \<and> last (build_messages self message history) = Message.make ''user'' (JStr message) None
       \<and> chat cfg loads self message history False w
           = (case complete loads svc
                     (Message.make ''system'' (get_system_prompt self) None
                        # history_list history @ [Message.make ''user'' (JStr message) None])
                     (dict_get (config self) ''model'')
                     (dict_get_default (config self) ''temperature'' (JFloat 7 (- 1)))
                     (dict_get (config self) ''max_tokens'') Map.empty w of
                (Inl e, w1) \<Rightarrow> (Inl e, self1, w1)
              | (Inr response, w1) \<Rightarrow> (Inr (cr_content response), self1, w1))
       \<and> (\<exists>p. requests (snd (snd (chat cfg loads self message history True w))) = requests w @ [p]
              \<and> p ''messages'' = Some (openai_messages
                     (Message.make ''system'' (get_system_prompt self) None
                        # history_list history @ [Message.make ''user'' (JStr message) None])))"
proof (intro conjI)
  show "length (filter (\<lambda>m. role m = ''system'') (build_messages self message history)) = 1"
    using assms(1) by (simp add: build_messages_list Message.defs filter_empty_conv)
  show "chat cfg loads self message history False w
           = (case complete loads svc
                     (Message.make ''system'' (get_system_prompt self) None
                        # history_list history @ [Message.make ''user'' (JStr message) None])
                     (dict_get (config self) ''model'')
                     (dict_get_default (config self) ''temperature'' (JFloat 7 (- 1)))
                     (dict_get (config self) ''max_tokens'') Map.empty w of
                (Inl e, w1) \<Rightarrow> (Inl e, self1, w1)
              | (Inr response, w1) \<Rightarrow> (Inr (cr_content response), self1, w1))"
    using assms(2) by (simp add: chat_def Let_def build_messages_list)
  let ?msgs = "Message.make ''system'' (get_system_prompt self) None
                 # history_list history @ [Message.make ''user'' (JStr message) None]"
  let ?p = "stream_payload svc ?msgs (dict_get (config self) ''model'')
              (dict_get_default (config self) ''temperature'' (JFloat 7 (- 1)))
              (dict_get (config self) ''max_tokens'') Map.empty"
  have "requests (snd (snd (chat cfg loads self message history True w))) = requests w @ [?p]"
    using assms(2) complete_stream_requests[of loads svc ?msgs _ _ _ Map.empty w]
    by (auto simp: chat_def Let_def build_messages_list split: prod.splits sum.splits)
       (metis consume_requests snd_conv)+
  moreover have "?p ''messages'' = Some (openai_messages ?msgs)"
    by (simp add: payload_messages)
  ultimately show "\<exists>p. requests (snd (snd (chat cfg loads self message history True w))) = requests w @ [p]
              \<and> p ''messages'' = Some (openai_messages ?msgs)"
    by blast
qed (simp_all add: build_messages_list)

theorem chat_message_list_witness:
  "map role (history_list (Some hello)) = [''user'']
   \<and> ai_service sample_config sample_agent = (Inr svc3, sample_agent\<lparr>ai_service_cache := Some svc3\<rparr>)
   \<and> build_messages sample_agent ''again'' (Some hello)
       = [Message.make ''system'' (JStr ''You are a helpful AI assistant.'') None,
          Message.make ''user'' (JStr ''hello'') None,
          Message.make ''user'' (JStr ''again'') None]
   \<and> length (filter (\<lambda>m. role m = ''system'') (build_messages sample_agent ''again'' (Some hello))) = 1"
proof -
  have h: "\<forall>m \<in> set (history_list (Some hello)). role m \<noteq> ''system''"
    by (simp add: history_list_def hello_def Message.defs)
  have p: "get_system_prompt sample_agent = JStr ''You are a helpful AI assistant.''"
    by (simp add: get_system_prompt_def sample_agent_def Agent.defs DEFAULT_SYSTEM_PROMPTS_def)
  note t = chat_message_list[OF h sample_service, of "''again''" sample_loads empty_world]
  from t have a: "build_messages sample_agent ''again'' (Some hello)
       = Message.make ''system'' (get_system_prompt sample_agent) None
           # history_list (Some hello) @ [Message.make ''user'' (JStr ''again'') None]"
    by (rule conjunct1)
  from t have b: "length (filter (\<lambda>m. role m = ''system'')
                    (build_messages sample_agent ''again'' (Some hello))) = 1"
    by (elim conjE)
  have a': "build_messages sample_agent ''again'' (Some hello)
       = [Message.make ''system'' (JStr ''You are a helpful AI assistant.'') None,
          Message.make ''user'' (JStr ''hello'') None,
          Message.make ''user'' (JStr ''again'') None]"
    unfolding a p by (simp add: history_list_def hello_def)
  have r: "map role (history_list (Some hello)) = [''user'']"
    by (simp add: history_list_def hello_def Message.defs)
  from r sample_service a' b show ?thesis by blast
qed

lemma consume_text:
  "chunks_of evs = map JStr cs \<Longrightarrow>
     fst (consume evs None acc w) = Inr (acc @ concat cs)
     \<and> stdout (snd (consume evs None acc w)) = stdout w @ cs"
proof (induction evs arbitrary: cs acc w)
  case Nil
  then show ?case by simp
next
  case (Cons ev evs)
  show ?case
  proof (cases ev)
    case (Warning e)
    with Cons.prems have "chunks_of evs = map JStr cs" by simp
    from Cons.IH[OF this] Warning show ?thesis by simp
  next
    case (Chunk v)
    with Cons.prems obtain c cs' where cs: "cs = c # cs'" "v = JStr c" "chunks_of evs = map JStr cs'"
      by (cases cs) auto
    from Cons.IH[OF cs(3)] Chunk cs(1,2) show ?thesis by simp
  qed
qed

text \<open>
  Claim C5. Take a streaming response that ends normally and whose chunks are the texts
  \<open>cs\<close>. Then \<open>chat\<close> with \<open>stream = True\<close> returns their concatenation, and what it writes
  to the output is exactly \<open>cs\<close>, each chunk once and in arrival order, followed by the
  closing line break. For every non-streaming response whose content is that
  concatenation, \<open>chat\<close> with \<open>stream = False\<close> returns the same value.
\<close>

theorem chat_stream_equals_complete:
  assumes "ai_service cfg self = (Inr svc, self1)"
    and "fst (complete_stream loads svc (build_messages self message history)
               (dict_get (config self) ''model'')
               (dict_get_default (config self) ''temperature'' (JFloat 7 (- 1)))
               (dict_get (config self) ''max_tokens'') Map.empty ws) = (evs, None)"
    and "chunks_of evs = map JStr cs"
  shows "fst (chat cfg loads self message history True ws) = Inr (JStr (concat cs))
       \<and> stdout (snd (snd (chat cfg loads self message history True ws)))
           = stdout ws @ cs @ [newline]
       \<and> (\<forall>wn response.
             fst (complete loads svc (build_messages self message history)
                    (dict_get (config self) ''model'')
                    (dict_get_default (config self) ''temperature'' (JFloat 7 (- 1)))
                    (dict_get (config self) ''max_tokens'') Map.empty wn) = Inr response
             \<and> cr_content response = JStr (concat cs)
           \<longrightarrow> fst (chat cfg loads self message history False wn)
                 = fst (chat cfg loads self message history True ws))"
proof -
  let ?msgs = "build_messages self message history"
  let ?model = "dict_get (config self) ''model''"
  let ?temp = "dict_get_default (config self) ''temperature'' (JFloat 7 (- 1))"
  let ?mt = "dict_get (config self) ''max_tokens''"
  obtain w1 where cs: "complete_stream loads svc ?msgs ?model ?temp ?mt Map.empty ws = ((evs, None), w1)"
    using assms(2) by (cases "complete_stream loads svc ?msgs ?model ?temp ?mt Map.empty ws") auto
  have out: "stdout w1 = stdout ws"
    using complete_stream_stdout[of loads svc ?msgs ?model ?temp ?mt Map.empty ws] cs by simp
  obtain w2 where cons: "consume evs None [] w1 = (Inr (concat cs), w2)" and out2: "stdout w2 = stdout w1 @ cs"
    using consume_text[OF assms(3), of "[]" w1] by (cases "consume evs None [] w1") auto
  have stream: "chat cfg loads self message history True ws = (Inr (JStr (concat cs)), self1, print newline w2)"
    using assms(1) cs cons by (simp add: chat_def Let_def)
  have nonstream: "fst (chat cfg loads self message history False wn) = Inr (JStr (concat cs))"
    if "fst (complete loads svc ?msgs ?model ?temp ?mt Map.empty wn) = Inr response"
      and "cr_content response = JStr (concat cs)" for wn response
    using that assms(1) by (auto simp: chat_def Let_def split: prod.splits sum.splits)
  show ?thesis
    using stream out out2 nonstream by auto
qed

lemma sample_loads_chunks [simp]:
  "sample_loads chunk_hi = Some (chunk_json ''hi'')"
  "sample_loads chunk_there = Some (chunk_json '' there'')"
  "sample_loads chunk_null_choice = Some (JObj [(''choices'', JArr [JNull])])"
  by (simp_all add: sample_loads_def hi_body_def chunk_hi_def chunk_there_def chunk_null_choice_def)

lemma parse_chunk_text [simp]:
  "loads text = Some (chunk_json c) \<Longrightarrow> parse_chunk loads text = Inr (Some (JStr c))"
  by (simp add: parse_chunk_def chunk_json_def)

lemma chunk_not_done [simp]:
  "chunk_hi \<noteq> ''[DONE]''" "chunk_there \<noteq> ''[DONE]''" "chunk_null_choice \<noteq> ''[DONE]''"
  by (simp_all add: chunk_hi_def chunk_there_def chunk_null_choice_def)

lemma decode_data_line:
  "text \<noteq> ''[DONE]'' \<Longrightarrow>
     decode_line loads (''data: '' @ text) =
       (case parse_chunk loads text of
          Inr None \<Rightarrow> Inr None
        | Inr (Some v) \<Rightarrow> Inr (Some (Chunk v))
        | Inl e \<Rightarrow>
            if e = JSONDecodeError \<or> e = KeyError \<or> e = IndexError then Inr (Some (Warning e))
            else Inl e)"
  by (simp add: decode_line_def startswith_def)

lemma decode_line_chunks [simp]:
  "decode_line sample_loads hi_line = Inr (Some (Chunk (JStr ''hi'')))"
  "decode_line sample_loads there_line = Inr (Some (Chunk (JStr '' there'')))"
  unfolding hi_line_def there_line_def
  by (simp_all only: decode_data_line[OF chunk_not_done(1)] decode_data_line[OF chunk_not_done(2)])
     simp_all

lemma decode_line_skips [simp]:
  "decode_line loads [] = Inr None"
  "decode_line loads ''data: [DONE]'' = Inr None"
  by (simp_all add: decode_line_def)

lemma streaming_world_stream:
  "fst (complete_stream sample_loads svc3 msgs model temperature max_tokens kwargs streaming_world)
     = ([Chunk (JStr ''hi''), Chunk (JStr '' there'')], None)"
  by (simp add: complete_stream_def open_stream_def streaming_world_def empty_world_def world.defs
        raise_for_status_def)

lemma streaming_world_complete:
  "fst (complete sample_loads svc3 msgs model temperature max_tokens kwargs streaming_world) = Inr hi_response"
proof -
  have "attempt_at sample_loads streaming_world p 0 = Inr hi_response" for p
    by (simp add: attempt_at_def streaming_world_def empty_world_def world.defs
          attempt_result_def raise_for_status_def)
  moreover have "0 < max_retries svc3" by (simp add: svc3_def OpenAIService.defs)
  ultimately show ?thesis
    by (simp add: complete_def retry_loop_success_step)
qed

theorem chat_stream_equals_complete_witness:
  "ai_service sample_config sample_agent = (Inr svc3, sample_agent\<lparr>ai_service_cache := Some svc3\<rparr>)
   \<and> fst (complete_stream sample_loads svc3 (build_messages sample_agent ''hello'' None)
               (dict_get (config sample_agent) ''model'')
               (dict_get_default (config sample_agent) ''temperature'' (JFloat 7 (- 1)))
               (dict_get (config sample_agent) ''max_tokens'') Map.empty streaming_world)
       = ([Chunk (JStr ''hi''), Chunk (JStr '' there'')], None)
   \<and> chunks_of [Chunk (JStr ''hi''), Chunk (JStr '' there'')] = map JStr [''hi'', '' there'']
   \<and> fst (chat sample_config sample_loads sample_agent ''hello'' None True streaming_world)
       = Inr (JStr ''hi there'')
   \<and> stdout (snd (snd (chat sample_config sample_loads sample_agent ''hello'' None True streaming_world)))
       = [''hi'', '' there'', newline]
   \<and> fst (chat sample_config sample_loads sample_agent ''hello'' None False streaming_world)
       = fst (chat sample_config sample_loads sample_agent ''hello'' None True streaming_world)"
proof -
  have c: "chunks_of [Chunk (JStr ''hi''), Chunk (JStr '' there'')] = map JStr [''hi'', '' there'']"
    by simp
  note t = chat_stream_equals_complete[where message="''hello''" and history=None
             and ws=streaming_world and loads=sample_loads,
             OF sample_service streaming_world_stream c]
  have e: "stdout streaming_world = []"
    by (simp add: streaming_world_def empty_world_def world.defs)
  have r: "cr_content hi_response = JStr (concat [''hi'', '' there''])"
    by (simp add: hi_response_def CompletionResponse.defs)
  from t have t1: "fst (chat sample_config sample_loads sample_agent ''hello'' None True streaming_world)
       = Inr (JStr (concat [''hi'', '' there'']))"
    by (rule conjunct1)
  from t have t2: "stdout (snd (snd (chat sample_config sample_loads sample_agent ''hello'' None True streaming_world)))
       = stdout streaming_world @ [''hi'', '' there''] @ [newline]"
    by (elim conjE)
  from t streaming_world_complete r
  have t3: "fst (chat sample_config sample_loads sample_agent ''hello'' None False streaming_world)
       = fst (chat sample_config sample_loads sample_agent ''hello'' None True streaming_world)"
    by blast
  from sample_service streaming_world_stream c t1 t2 t3 e show ?thesis by simp
qed

section \<open>Properties of the chunk decoder\<close>

lemma decode_lines_skip:
  "decode_line loads line = Inr None \<Longrightarrow>
     decode_lines loads (xs @ line # ys) final = decode_lines loads (xs @ ys) final"
  by (induction xs) (auto split: sum.splits option.splits)

lemma open_stream_ok:
  assumes "on_stream w (length (requests w)) (stream_payload self msgs model temperature max_tokens kwargs)
             = StreamResponse code lines final"
    and "200 \<le> code \<and> code \<le> 299"
  shows "fst (complete_stream loads self msgs model temperature max_tokens kwargs w)
           = decode_lines loads lines final"
  using assms by (simp add: complete_stream_def open_stream_def raise_for_status_def)

text \<open>
  A malformed event that raises one of the three exceptions the \<open>except\<close> clause names
  is skipped with one warning, between the two chunks.
\<close>

lemma decode_skips_caught_event:
  assumes "decode_line loads l1 = Inr (Some (Chunk a))"
    and "decode_line loads l2 = Inr (Some (Chunk b))"
    and "bad \<noteq> ''[DONE]''"
    and "parse_chunk loads bad = Inl e"
    and "e = JSONDecodeError \<or> e = KeyError \<or> e = IndexError"
  shows "decode_lines loads [l1, ''data: '' @ bad, l2] final = ([Chunk a, Warning e, Chunk b], final)"
proof -
  have "decode_line loads (''data: '' @ bad) = Inr (Some (Warning e))"
    unfolding decode_data_line[OF assms(3)] using assms(4,5) by auto
  with assms(1,2) show ?thesis
    by (simp only: decode_lines.simps) simp
qed

lemma garbled_stream:
  "fst (complete_stream sample_loads svc3 msgs model temperature max_tokens kwargs garbled_world)
     = ([Chunk (JStr ''hi''), Warning JSONDecodeError, Chunk (JStr '' there'')], None)"
proof -
  have "sample_loads ''{oops'' = None"
    by (simp add: sample_loads_def hi_body_def chunk_hi_def chunk_there_def chunk_null_choice_def)
  then have "parse_chunk sample_loads ''{oops'' = Inl JSONDecodeError"
    by (simp add: parse_chunk_def)
  from decode_skips_caught_event[OF decode_line_chunks(1) decode_line_chunks(2) _ this]
  have "decode_lines sample_loads [hi_line, ''data: {oops'', there_line] None
          = ([Chunk (JStr ''hi''), Warning JSONDecodeError, Chunk (JStr '' there'')], None)"
    by simp
  then show ?thesis
    by (simp add: complete_stream_def open_stream_def garbled_world_def empty_world_def world.defs
          raise_for_status_def)
qed

text \<open>
  Claim C3, at the event \<open>data: {"choices":[null]}\<close> placed between two well-formed
  content events. Reading \<open>delta\<close> from the first choice raises \<open>TypeError\<close>, which the
  \<open>except\<close> clause does not name: the stream yields the first chunk only and ends with
  that exception, no warning is logged, and \<open>chat\<close> raises after printing the first chunk.
\<close>

theorem complete_stream_null_choice:
  "fst (complete_stream sample_loads svc3 (build_messages sample_agent ''hello'' None)
          JNull (JFloat 7 (- 1)) JNull Map.empty null_choice_world)
     = ([Chunk (JStr ''hi'')], Some TypeError)
   \<and> fst (chat sample_config sample_loads sample_agent ''hello'' None True null_choice_world)
       = Inl TypeError
   \<and> stdout (snd (snd (chat sample_config sample_loads sample_agent ''hello'' None True null_choice_world)))
       = [''hi'']
   \<and> log (snd (snd (chat sample_config sample_loads sample_agent ''hello'' None True null_choice_world)))
       = []"
proof -
  have p: "parse_chunk sample_loads chunk_null_choice = Inl TypeError"
    by (simp add: parse_chunk_def)
  have l: "decode_line sample_loads null_choice_line = Inl TypeError"
    unfolding null_choice_line_def by (simp only: decode_data_line[OF chunk_not_done(3)] p) simp
  have d: "decode_lines sample_loads
          [hi_line, null_choice_line, there_line] None
        = ([Chunk (JStr ''hi'')], Some TypeError)"
    by (simp add: l)
  have s: "complete_stream sample_loads svc3 msgs model temperature max_tokens Map.empty null_choice_world
     = (([Chunk (JStr ''hi'')], Some TypeError),
        null_choice_world\<lparr>requests := [stream_payload svc3 msgs model temperature max_tokens Map.empty]\<rparr>)"
    for msgs model temperature max_tokens
    using d by (simp add: complete_stream_def open_stream_def null_choice_world_def empty_world_def
          world.defs raise_for_status_def)
  have c: "dict_get (config sample_agent) k = JNull"
          "dict_get_default (config sample_agent) k d = d" for k d
    by (simp_all add: dict_get_def dict_get_default_def sample_agent_def Agent.defs)
  have w: "stdout null_choice_world = []" "log null_choice_world = []"
    by (simp_all add: null_choice_world_def empty_world_def world.defs)
  show ?thesis
    using w by (simp add: s chat_def Let_def c print_def)
qed

text \<open>
  Claim C4, as the code has it. The sentinel line is skipped, not obeyed: when the body
  is \<open>xs\<close>, the sentinel line, then \<open>ys\<close>, the stream is the stream of the body \<open>xs\<close> then
  \<open>ys\<close>. The lines after the sentinel are decoded like any others, and the stream ends
  where the body's lines end or where an exception leaves the decoder.
\<close>

theorem complete_stream_skips_sentinel:
  assumes "on_stream w (length (requests w)) (stream_payload self msgs model temperature max_tokens kwargs)
             = StreamResponse code (xs @ ''data: [DONE]'' # ys) final"
    and "200 \<le> code \<and> code \<le> 299"
  shows "fst (complete_stream loads self msgs model temperature max_tokens kwargs w)
           = decode_lines loads (xs @ ys) final"
  using open_stream_ok[OF assms] by (simp add: decode_lines_skip)

theorem complete_stream_skips_sentinel_witness:
  "on_stream sentinel_world (length (requests sentinel_world))
       (stream_payload svc3 hello JNull (JFloat 7 (- 1)) JNull Map.empty)
     = StreamResponse 200 ([hi_line] @ ''data: [DONE]'' # [there_line]) None
   \<and> (200 \<le> (200::int) \<and> (200::int) \<le> 299)
   \<and> fst (complete_stream sample_loads svc3 hello JNull (JFloat 7 (- 1)) JNull Map.empty sentinel_world)
       = decode_lines sample_loads ([hi_line] @ [there_line]) None
   \<and> decode_lines sample_loads ([hi_line] @ [there_line]) None
       = ([Chunk (JStr ''hi''), Chunk (JStr '' there'')], None)"
proof -
  have a: "on_stream sentinel_world (length (requests sentinel_world))
       (stream_payload svc3 hello JNull (JFloat 7 (- 1)) JNull Map.empty)
     = StreamResponse 200 ([hi_line] @ ''data: [DONE]'' # [there_line]) None"
    by (simp add: sentinel_world_def empty_world_def world.defs)
  have b: "200 \<le> (200::int) \<and> (200::int) \<le> 299" by simp
  have d: "decode_lines sample_loads ([hi_line] @ [there_line]) None
       = ([Chunk (JStr ''hi''), Chunk (JStr '' there'')], None)"
    by simp
  from complete_stream_skips_sentinel[OF a b, of sample_loads] a b d show ?thesis
    by blast
qed

text \<open>
  Claim C4 as stated fails: the content event that follows the sentinel line is yielded.
\<close>

theorem sentinel_line_counterexample:
  "chunks_of (fst (fst (complete_stream sample_loads svc3 hello JNull (JFloat 7 (- 1)) JNull Map.empty
                          sentinel_world)))
     = [JStr ''hi'', JStr '' there'']"
proof -
  have "decode_lines sample_loads [hi_line, ''data: [DONE]'', there_line] None
       = ([Chunk (JStr ''hi''), Chunk (JStr '' there'')], None)"
    by simp
  then show ?thesis
    by (simp add: complete_stream_def open_stream_def sentinel_world_def empty_world_def world.defs
          raise_for_status_def)
qed

section \<open>Zero-valued parameters of the client\<close>

lemma retry_loop_requests:
  "\<exists>k. requests (snd (retry_loop loads self p attempt w)) = requests w @ replicate k p
       \<and> (attempt < max_retries self \<longrightarrow> 1 \<le> k)
       \<and> k \<le> nat (max_retries self - attempt)"
proof (induction "nat (max_retries self - attempt)" arbitrary: attempt w)
  case 0
  then have nlt: "\<not> attempt < max_retries self" by linarith
  then have "retry_loop loads self p attempt w
               = (Inl (RuntimeError ''Failed to complete request after retries''), w)"
    by (subst retry_loop.simps) simp
  with nlt show ?case by (intro exI[of _ 0]) simp
next
  case (Suc n)
  then have lt: "attempt < max_retries self" by linarith
  have one: "requests (snd (post w p)) = requests w @ replicate 1 p"
    by (simp add: post_simps)
  have stop: ?case if "requests (snd (retry_loop loads self p attempt w)) = requests w @ [p]"
    using that lt by (intro exI[of _ 1]) simp
  show ?case
  proof (cases "attempt_result loads (on_post w (length (requests w)) p)")
    case (Inr r)
    with lt have "retry_loop loads self p attempt w = (Inr r, snd (post w p))"
      by (subst retry_loop.simps) (simp add: post_def)
    then show ?thesis by (intro stop) (simp add: post_simps)
  next
    case (Inl e)
    show ?thesis
    proof (cases "is_Exception e")
      case False
      then have "e = KeyboardInterrupt" by (cases e) simp_all
      with lt Inl have "retry_loop loads self p attempt w = (Inl e, snd (post w p))"
        by (subst retry_loop.simps) (simp add: post_def)
      then show ?thesis by (intro stop) (simp add: post_simps)
    next
      case True
      then have "failed (attempt_at loads w p 0)"
        using Inl by (simp add: failed_def attempt_at_def)
      from retry_loop_fail_step[OF lt this] obtain e' le where
        step: "retry_loop loads self p attempt w =
           (if attempt = max_retries self - 1 then (Inl e', logger le (snd (post w p)))
            else retry_loop loads self p (attempt + 1) (logger le (snd (post w p))))"
        by blast
      show ?thesis
      proof (cases "attempt = max_retries self - 1")
        case True
        with step show ?thesis by (intro stop) (simp add: post_simps)
      next
        case False
        have n: "n = nat (max_retries self - (attempt + 1))" using Suc(2) by linarith
        from Suc(1)[OF n, of "logger le (snd (post w p))"] obtain k where
          k: "requests (snd (retry_loop loads self p (attempt + 1) (logger le (snd (post w p)))))
                = requests w @ [p] @ replicate k p"
             "k \<le> nat (max_retries self - (attempt + 1))"
          by (auto simp: post_simps)
        have "requests (snd (retry_loop loads self p attempt w)) = requests w @ replicate (Suc k) p"
          using step False k(1) by simp
        moreover have "Suc k \<le> nat (max_retries self - attempt)" using k(2) lt by linarith
        ultimately show ?thesis by (intro exI[of _ "Suc k"]) simp
      qed
    qed
  qed
qed

lemma payload_max_tokens_zero:
  "kwargs ''max_tokens'' = None \<Longrightarrow>
     complete_payload svc msgs model temperature (JInt 0) kwargs ''max_tokens'' = None"
  "kwargs ''max_tokens'' = None \<Longrightarrow>
     stream_payload svc msgs model temperature (JInt 0) kwargs ''max_tokens'' = None"
  by (simp_all add: complete_payload_def stream_payload_def Let_def map_add_def)

text \<open>
  Claim C10, as the code has it. A client built with \<open>max_retries = 0\<close> or \<open>timeout = 0\<close>
  takes the configured value instead, and a non-zero argument is kept. With
  \<open>max_tokens = 0\<close> the payloads of \<open>complete\<close> and \<open>complete_stream\<close> have no \<open>max_tokens\<close>
  entry, and these payloads are what the requests carry. Whether the client makes a
  request is decided by the resulting \<open>max_retries\<close> alone: at least one when it is 1 or
  more, none (and \<open>RuntimeError\<close>) otherwise.
\<close>

theorem zero_parameters_absent:
  assumes "OpenAIService_init cfg key url timeout_arg max_retries_arg = Inr svc"
    and "kwargs ''max_tokens'' = None"
  shows "max_retries svc
           = (if max_retries_arg = 0 then cfg_max_retries (ai_service_cfg cfg) else max_retries_arg)
       \<and> timeout svc = (if timeout_arg = 0 then cfg_timeout (ai_service_cfg cfg) else timeout_arg)
       \<and> complete_payload svc msgs model temperature (JInt 0) kwargs ''max_tokens'' = None
       \<and> stream_payload svc msgs model temperature (JInt 0) kwargs ''max_tokens'' = None
       \<and> (\<exists>k. requests (snd (complete loads svc msgs model temperature (JInt 0) kwargs w))
                = requests w @ replicate k (complete_payload svc msgs model temperature (JInt 0) kwargs))
       \<and> requests (snd (complete_stream loads svc msgs model temperature (JInt 0) kwargs w))
           = requests w @ [stream_payload svc msgs model temperature (JInt 0) kwargs]
       \<and> (if 1 \<le> max_retries svc
           then length (requests w)
                  < length (requests (snd (complete loads svc msgs model temperature max_tokens kwargs w)))
           else complete loads svc msgs model temperature max_tokens kwargs w
                  = (Inl (RuntimeError ''Failed to complete request after retries''), w))"
proof -
  have init: "max_retries svc
           = (if max_retries_arg = 0 then cfg_max_retries (ai_service_cfg cfg) else max_retries_arg)"
     "timeout svc = (if timeout_arg = 0 then cfg_timeout (ai_service_cfg cfg) else timeout_arg)"
    using assms(1)
    by (auto simp: OpenAIService_init_def Let_def or_int_def OpenAIService.defs
             split: option.splits if_splits)
  have reqs: "\<exists>k. requests (snd (complete loads svc msgs model temperature (JInt 0) kwargs w))
                = requests w @ replicate k (complete_payload svc msgs model temperature (JInt 0) kwargs)"
    using retry_loop_requests[of loads svc _ 0 w] unfolding complete_def by blast
  have attempts: "(if 1 \<le> max_retries svc
           then length (requests w)
                  < length (requests (snd (complete loads svc msgs model temperature max_tokens kwargs w)))
           else complete loads svc msgs model temperature max_tokens kwargs w
                  = (Inl (RuntimeError ''Failed to complete request after retries''), w))"
  proof (cases "1 \<le> max_retries svc")
    case True
    from retry_loop_requests[of loads svc "complete_payload svc msgs model temperature max_tokens kwargs" 0 w]
    obtain k where "requests (snd (complete loads svc msgs model temperature max_tokens kwargs w))
                      = requests w @ replicate k (complete_payload svc msgs model temperature max_tokens kwargs)"
      and "1 \<le> k"
      using True unfolding complete_def by auto
    with True show ?thesis by simp
  next
    case False
    then show ?thesis
      unfolding complete_def by (subst retry_loop.simps) simp
  qed
  have p1: "complete_payload svc msgs model temperature (JInt 0) kwargs ''max_tokens'' = None"
    using assms(2) by (rule payload_max_tokens_zero(1))
  have p2: "stream_payload svc msgs model temperature (JInt 0) kwargs ''max_tokens'' = None"
    using assms(2) by (rule payload_max_tokens_zero(2))
  from init reqs attempts p1 p2
    complete_stream_requests[of loads svc msgs model temperature "JInt 0" kwargs w]
  show ?thesis by blast
qed

lemma init_sample_zero:
  "OpenAIService_init sample_config None None 0 0 = Inr svc3"
  by (simp add: OpenAIService_init_def sample_config_def svc3_def or_str_def or_int_def
        Config.defs AIServiceConfig.defs OpenAIService.defs)

theorem zero_parameters_absent_witness:
  "OpenAIService_init sample_config None None 0 0 = Inr svc3
   \<and> (Map.empty :: payload) ''max_tokens'' = None
   \<and> max_retries svc3 = 3 \<and> timeout svc3 = 60
   \<and> complete_payload svc3 hello JNull (JFloat 7 (- 1)) (JInt 0) Map.empty ''max_tokens'' = None
   \<and> stream_payload svc3 hello JNull (JFloat 7 (- 1)) (JInt 0) Map.empty ''max_tokens'' = None
   \<and> length (requests flaky_world)
        < length (requests (snd (complete sample_loads svc3 hello JNull (JFloat 7 (- 1)) (JInt 0)
                                   Map.empty flaky_world)))"
proof -
  have e: "(Map.empty :: payload) ''max_tokens'' = None" by simp
  have c: "cfg_max_retries (ai_service_cfg sample_config) = 3"
          "cfg_timeout (ai_service_cfg sample_config) = 60"
    by (simp_all add: sample_config_def Config.defs AIServiceConfig.defs)
  note t = zero_parameters_absent[OF init_sample_zero e, of hello JNull "JFloat 7 (- 1)"
             sample_loads flaky_world "JInt 0"]
  from t c have m: "max_retries svc3 = 3" and s: "timeout svc3 = 60" by simp_all
  from t have p1: "complete_payload svc3 hello JNull (JFloat 7 (- 1)) (JInt 0) Map.empty ''max_tokens'' = None"
    and p2: "stream_payload svc3 hello JNull (JFloat 7 (- 1)) (JInt 0) Map.empty ''max_tokens'' = None"
    by blast+
  from t m have a: "length (requests flaky_world)
        < length (requests (snd (complete sample_loads svc3 hello JNull (JFloat 7 (- 1)) (JInt 0)
                                   Map.empty flaky_world)))"
    by simp
  from init_sample_zero e m s p1 p2 a show ?thesis by blast
qed

text \<open>
  Claim C10 as stated fails: with \<open>max_retries: 0\<close> in the configuration, the client built
  with \<open>max_retries = 0\<close> keeps zero, makes no request and raises \<open>RuntimeError\<close>; so does
  a client built with a negative \<open>max_retries\<close>, which is kept as it is.
\<close>

theorem zero_attempts_counterexample:
  "OpenAIService_init zero_retry_config None None 60 0
     = Inr (OpenAIService.make ''sk-test'' ''https://api.openai.com/v1'' 60 0 ''gpt-3.5-turbo'')
   \<and> complete sample_loads
         (OpenAIService.make ''sk-test'' ''https://api.openai.com/v1'' 60 0 ''gpt-3.5-turbo'')
         hello JNull (JFloat 7 (- 1)) JNull Map.empty streaming_world
       = (Inl (RuntimeError ''Failed to complete request after retries''), streaming_world)
   \<and> OpenAIService_init sample_config None None 60 (- 1)
       = Inr (OpenAIService.make ''sk-test'' ''https://api.openai.com/v1'' 60 (- 1) ''gpt-3.5-turbo'')
   \<and> complete sample_loads
         (OpenAIService.make ''sk-test'' ''https://api.openai.com/v1'' 60 (- 1) ''gpt-3.5-turbo'')
         hello JNull (JFloat 7 (- 1)) JNull Map.empty streaming_world
       = (Inl (RuntimeError ''Failed to complete request after retries''), streaming_world)"
proof -
  have z: "complete sample_loads (OpenAIService.make k u t n m) msgs model temperature max_tokens kwargs w
             = (Inl (RuntimeError ''Failed to complete request after retries''), w)"
    if "n \<le> 0" for k u t n m msgs model temperature max_tokens kwargs w
    unfolding complete_def using that
    by (subst retry_loop.simps) (simp add: OpenAIService.defs)
  show ?thesis
    by (simp add: z OpenAIService_init_def zero_retry_config_def sample_config_def or_str_def or_int_def
          Config.defs AIServiceConfig.defs)
qed

section \<open>Properties of the interactive session\<close>

lemma console_print_simps [simp]:
  "console (console_print e w) = console w @ [e]"
  "agents (console_print e w) = agents w"
  "sessions (console_print e w) = sessions w"
  "requests (console_print e w) = requests w"
  "on_stream (console_print e w) = on_stream w"
  "on_post (console_print e w) = on_post w"
  "stdout (console_print e w) = stdout w"
  "log (console_print e w) = log w"
  "next_uuid (console_print e w) = next_uuid w"
  "utcnow (console_print e w) = utcnow w"
  by (simp_all add: console_print_def)

lemma split_from_prefix:
  "split_from cur s = c # cs \<Longrightarrow> cur \<noteq> [] \<Longrightarrow> prefix (rev cur) c"
proof (induction s arbitrary: cur)
  case Nil
  then show ?case by (simp split: if_splits)
next
  case (Cons y ys)
  show ?case
  proof (cases "is_space y")
    case True
    with Cons.prems show ?thesis by simp
  next
    case False
    with Cons.prems have "split_from (y # cur) ys = c # cs" by simp
    from Cons.IH[OF this] have "prefix (rev cur @ [y]) c" by simp
    then show ?thesis by (meson append_prefixD)
  qed
qed

lemma strip_no_leading_space:
  "strip s = x # xs \<Longrightarrow> \<not> is_space x"
proof -
  assume a: "strip s = x # xs"
  let ?t = "dropWhile is_space s"
  show ?thesis
  proof (cases ?t)
    case Nil
    with a show ?thesis by (simp add: strip_def)
  next
    case (Cons y ys)
    then have ny: "\<not> is_space y" by (metis hd_dropWhile list.sel(1) list.distinct(1))
    have "dropWhile is_space (rev ys @ [y]) = dropWhile is_space (rev ys) @ [y]
            \<or> dropWhile is_space (rev ys @ [y]) = [y]"
      using ny by (simp add: dropWhile_append)
    then have "hd (strip s) = y"
      using Cons by (auto simp: strip_def)
    with a ny show ?thesis by simp
  qed
qed

lemma lower_char_slash: "lower_char x = CHR ''/'' \<Longrightarrow> x = CHR ''/''"
proof (rule ccontr)
  assume l: "lower_char x = CHR ''/''" and n: "x \<noteq> CHR ''/''"
  let ?n = "of_char x :: nat"
  from l n have up: "(65 \<le> ?n \<and> ?n \<le> 90) \<or> (192 \<le> ?n \<and> ?n \<le> 222 \<and> ?n \<noteq> 215)"
    and c: "char_of (?n + 32) = CHR ''/''"
    by (auto simp: lower_char_def Let_def split: if_splits)
  from c have "(of_char (char_of (?n + 32) :: char) :: nat) = of_char CHR ''/''" by simp
  then have "(?n + 32) mod 256 = 47" by simp
  with up show False by auto
qed

lemma command_starts_with_slash:
  assumes "split (strip text) = cmd # parts" and "lower cmd = CHR ''/'' # cmd_rest"
  shows "strip text \<noteq> [] \<and> startswith (strip text) ''/''"
proof -
  from assms(1) obtain x xs where s: "strip text = x # xs"
    by (cases "strip text") (auto simp: split_def)
  then have nx: "\<not> is_space x" by (rule strip_no_leading_space)
  with assms(1) s have "split_from [x] xs = cmd # parts" by (simp add: split_def)
  from split_from_prefix[OF this] obtain r where "cmd = x # r"
    by (auto simp: prefix_def)
  with assms(2) have "x = CHR ''/''" by (auto simp: lower_def lower_char_slash)
  with s show ?thesis by (simp add: startswith_def)
qed

lemma console_print_markup_simps:
  "\<not> markup_error ev \<Longrightarrow> console_print_markup markup_error ev w = (None, console_print ev w)"
  "markup_error ev \<Longrightarrow> console_print_markup markup_error ev w = (Some MarkupError, w)"
  by (simp_all add: console_print_markup_def)

text \<open>
  When the console accepts the "not found" message, \<open>/agent\<close> with an unknown name raises
  nothing and returns the session as it was; the message is the only effect and the loop
  goes on with the next input.
\<close>

lemma agent_unknown_name_printed:
  assumes "split (strip text) = cmd # new_name # others"
    and "lower cmd = ''/agent''"
    and "get_agent w new_name = None"
    and "\<not> markup_error (AgentNotFound new_name)"
  shows "handle_command markup_error cfg (strip text) self w
           = (None, self, console_print (AgentNotFound new_name) w)
       \<and> run_loop markup_error cfg loads (Line text # inputs) self w
           = run_loop markup_error cfg loads inputs self (console_print (AgentNotFound new_name) w)"
proof -
  have h: "handle_command markup_error cfg (strip text) self w
           = (None, self, console_print (AgentNotFound new_name) w)"
    using assms by (simp add: handle_command_def Let_def console_print_markup_def)
  from command_starts_with_slash[OF assms(1)] assms(2)
  have "strip text \<noteq> []" and "startswith (strip text) ''/''" by simp_all
  with h show ?thesis by (simp add: Let_def)
qed

text \<open>
  When the console refuses the message, the command raises \<open>MarkupError\<close>, which the loop
  does not catch: the loop ends there.
\<close>

lemma agent_unknown_name_refused:
  assumes "split (strip text) = cmd # new_name # others"
    and "lower cmd = ''/agent''"
    and "get_agent w new_name = None"
    and "markup_error (AgentNotFound new_name)"
  shows "handle_command markup_error cfg (strip text) self w = (Some MarkupError, self, w)
       \<and> run_loop markup_error cfg loads (Line text # inputs) self w = (Some MarkupError, self, w)"
proof -
  have h: "handle_command markup_error cfg (strip text) self w = (Some MarkupError, self, w)"
    using assms by (simp add: handle_command_def Let_def console_print_markup_def)
  from command_starts_with_slash[OF assms(1)] assms(2)
  have "strip text \<noteq> []" and "startswith (strip text) ''/''" by simp_all
  with h show ?thesis by (simp add: Let_def)
qed

lemma save_session_stores:
  assumes "messages self \<noteq> []" and "session_id self \<notin> set (map sm_id (sessions w))"
  shows "save_session markup_error self w =
     (None, console_print (SessionSaved (session_id self))
       (w\<lparr>sessions := sessions w @
           [SessionModel.make (session_id self) (''REPL Session - '' @ utcnow w) (agent_id (agent self))
              (map (\<lambda>msg. (role msg, content msg, utcnow w)) (messages self))]\<rparr>))"
  using assms by (simp add: save_session_def Let_def)

lemma save_session_refused:
  assumes "messages self \<noteq> []" and "session_id self \<in> set (map sm_id (sessions w))"
    and "\<not> markup_error (SaveFailed IntegrityError)"
  shows "save_session markup_error self w =
     (None, console_print (SaveFailed IntegrityError) (logger (LogSaveFailed IntegrityError) w))"
  using assms by (simp add: save_session_def Let_def console_print_markup_def)

lemma sample_markup_simps [simp]:
  "sample_markup_error (AgentNotFound ''[/]'')"
  "\<not> sample_markup_error (UsingAgent n t)"
  "\<not> sample_markup_error (SaveFailed e)"
  by (simp_all add: sample_markup_error_def)

lemma sample_session_fields:
  "agent sample_session = sample_agent" "messages sample_session = hello"
  "session_id sample_session = 0"
  by (simp_all add: sample_session_def REPLSession.defs)

lemma print_welcome_sample:
  "agent self = sample_agent \<Longrightarrow>
     print_welcome sample_markup_error self w
       = (None, console_print WelcomeCommands (console_print WelcomeHint
                  (console_print (UsingAgent ''default'' ''general'') (console_print WelcomeBanner w))))"
  by (simp add: print_welcome_def console_print_markup_def sample_agent_def Agent.defs)

text \<open>
  Claim C8, at the input \<open>/agent [/]\<close> with no agent of that name stored. The console
  refuses the "not found" message, because the name is a closing tag with nothing to
  close: \<open>handle_command\<close> raises \<open>MarkupError\<close> without printing, the loop ends with that
  exception and never handles the next input, and \<open>run\<close> raises it after the \<open>finally\<close>
  clause has saved the session and printed the farewell. The agent, the session
  identifier and the transcript are as before.
\<close>

theorem agent_unknown_name_markup:
  "get_agent streaming_world ''[/]'' = None
   \<and> handle_command sample_markup_error sample_config (strip ''/agent [/]'') sample_session streaming_world
       = (Some MarkupError, sample_session, streaming_world)
   \<and> run_loop sample_markup_error sample_config sample_loads [Line ''/agent [/]'', Line ''/help'']
         sample_session streaming_world
       = (Some MarkupError, sample_session, streaming_world)
   \<and> fst (run sample_markup_error sample_config sample_loads [Line ''/agent [/]'', Line ''/help'']
            sample_session streaming_world)
       = Some MarkupError
   \<and> console (snd (snd (run sample_markup_error sample_config sample_loads
                            [Line ''/agent [/]'', Line ''/help''] sample_session streaming_world)))
       = [WelcomeBanner, UsingAgent ''default'' ''general'', WelcomeHint, WelcomeCommands,
          SessionSaved 0, Goodbye]"
proof -
  have g: "get_agent w ''[/]'' = None" if "agents w = []" for w
    using that by (simp add: get_agent_def)
  have a: "agents streaming_world = []" "sessions streaming_world = []" "console streaming_world = []"
    by (simp_all add: streaming_world_def empty_world_def world.defs)
  have s: "split (strip ''/agent [/]'') = ''/agent'' # ''[/]'' # []"
    by (simp add: strip_def split_def is_space_def)
  have l: "lower ''/agent'' = ''/agent''"
    by (simp add: lower_def lower_char_def)
  have r: "handle_command sample_markup_error sample_config (strip ''/agent [/]'') sample_session w
             = (Some MarkupError, sample_session, w)
         \<and> run_loop sample_markup_error sample_config sample_loads [Line ''/agent [/]'', Line ''/help'']
               sample_session w
             = (Some MarkupError, sample_session, w)"
    if "agents w = []" for w
    using s l g[OF that] sample_markup_simps(1) by (rule agent_unknown_name_refused)
  note r0 = r[OF a(1)]
  let ?w0 = "console_print WelcomeCommands (console_print WelcomeHint
               (console_print (UsingAgent ''default'' ''general'') (console_print WelcomeBanner streaming_world)))"
  have "agents ?w0 = []" using a(1) by simp
  note r1 = r[OF this]
  have sv: "save_session sample_markup_error sample_session ?w0
      = (None, console_print (SessionSaved 0)
           (?w0\<lparr>sessions := sessions ?w0 @
              [SessionModel.make 0 (''REPL Session - '' @ utcnow ?w0) (agent_id sample_agent)
                 (map (\<lambda>msg. (role msg, content msg, utcnow ?w0)) hello)]\<rparr>))"
    using save_session_stores[of sample_session ?w0 sample_markup_error] a(2)
    by (simp add: sample_session_fields hello_def)
  have run: "run sample_markup_error sample_config sample_loads [Line ''/agent [/]'', Line ''/help'']
               sample_session streaming_world
      = (Some MarkupError, sample_session,
         console_print Goodbye (console_print (SessionSaved 0)
           (?w0\<lparr>sessions := sessions ?w0 @
              [SessionModel.make 0 (''REPL Session - '' @ utcnow ?w0) (agent_id sample_agent)
                 (map (\<lambda>msg. (role msg, content msg, utcnow ?w0)) hello)]\<rparr>)))"
    unfolding run_def print_welcome_sample[OF sample_session_fields(1)]
    using r1 sv
    by (simp add: run_finally_def sample_session_fields sample_config_def Config.defs hello_def)
  from r0 g[OF a(1)] show ?thesis
    unfolding run using a(3) by simp
qed

lemma print_world_simps [simp]:
  "console (print s w) = console w"
  "sessions (print s w) = sessions w"
  "agents (print s w) = agents w"
  "on_stream (print s w) = on_stream w"
  "utcnow (print s w) = utcnow w"
  by (simp_all add: print_def)

lemma logger_world_simps [simp]:
  "console (logger e w) = console w"
  "sessions (logger e w) = sessions w"
  "agents (logger e w) = agents w"
  "on_stream (logger e w) = on_stream w"
  "utcnow (logger e w) = utcnow w"
  "log (logger e w) = log w @ [e]"
  by (simp_all add: logger_def)

lemma consume_world [simp]:
  "console (snd (consume evs final acc w)) = console w"
  "sessions (snd (consume evs final acc w)) = sessions w"
  "agents (snd (consume evs final acc w)) = agents w"
  "on_stream (snd (consume evs final acc w)) = on_stream w"
  "utcnow (snd (consume evs final acc w)) = utcnow w"
  by (induction evs final acc w rule: consume.induct; simp split: json.splits)+

lemma complete_stream_world:
  "console (snd (complete_stream loads svc msgs model temperature max_tokens kwargs w)) = console w"
  "sessions (snd (complete_stream loads svc msgs model temperature max_tokens kwargs w)) = sessions w"
  "agents (snd (complete_stream loads svc msgs model temperature max_tokens kwargs w)) = agents w"
  "on_stream (snd (complete_stream loads svc msgs model temperature max_tokens kwargs w)) = on_stream w"
  "utcnow (snd (complete_stream loads svc msgs model temperature max_tokens kwargs w)) = utcnow w"
  by (auto simp: complete_stream_def open_stream_def split: stream_outcome.splits sum.splits)

text \<open>Streaming \<open>chat\<close> touches neither the console nor the store.\<close>

lemma chat_stream_world:
  "console (snd (snd (chat cfg loads a msg h True w))) = console w
   \<and> sessions (snd (snd (chat cfg loads a msg h True w))) = sessions w
   \<and> agents (snd (snd (chat cfg loads a msg h True w))) = agents w
   \<and> on_stream (snd (snd (chat cfg loads a msg h True w))) = on_stream w
   \<and> utcnow (snd (snd (chat cfg loads a msg h True w))) = utcnow w"
proof -
  obtain r a1 where s: "ai_service cfg a = (r, a1)" by (cases "ai_service cfg a")
  show ?thesis
  proof (cases r)
    case (Inl e)
    with s show ?thesis by (simp add: chat_def Let_def)
  next
    case (Inr svc)
    let ?cs = "complete_stream loads svc (build_messages a msg h) (dict_get (config a) ''model'')
                 (dict_get_default (config a) ''temperature'' (JFloat 7 (- 1)))
                 (dict_get (config a) ''max_tokens'') Map.empty w"
    obtain evs final w1 where c: "?cs = ((evs, final), w1)"
      by (cases ?cs) auto
    obtain r2 w2 where k: "consume evs final [] w1 = (r2, w2)" by (cases "consume evs final [] w1")
    have w1: "console w1 = console w" "sessions w1 = sessions w" "agents w1 = agents w"
      "on_stream w1 = on_stream w" "utcnow w1 = utcnow w"
      using complete_stream_world[of loads svc "build_messages a msg h" "dict_get (config a) ''model''"
              "dict_get_default (config a) ''temperature'' (JFloat 7 (- 1))"
              "dict_get (config a) ''max_tokens''" Map.empty w] c
      by simp_all
    have w2: "console w2 = console w1" "sessions w2 = sessions w1" "agents w2 = agents w1"
      "on_stream w2 = on_stream w1" "utcnow w2 = utcnow w1"
      using consume_world[of evs final "[]" w1] k by simp_all
    from s Inr c k w1 w2 show ?thesis
      by (cases r2) (simp_all add: chat_def Let_def)
  qed
qed

text \<open>One chat turn of the loop, when \<open>chat\<close> returns and when it raises.\<close>

lemma run_loop_chat_turn:
  assumes "strip text \<noteq> []" and "\<not> startswith (strip text) ''/''"
  shows "run_loop markup_error cfg loads (Line text # rest) self w =
     (case chat cfg loads (agent self) (strip text) (Some (messages self)) True
             (console_print AssistantHeader w) of
        (Inr response, agent2, w2) \<Rightarrow>
          run_loop markup_error cfg loads rest
            (self\<lparr>agent := agent2,
                  messages := messages self @ [Message.make ''user'' (JStr (strip text)) None,
                                               Message.make ''assistant'' response None]\<rparr>)
            (console_print EmptyLine w2)
      | (Inl e, agent2, w2) \<Rightarrow>
          if e = KeyboardInterrupt then
            run_loop markup_error cfg loads rest
              (self\<lparr>messages := messages self @ [Message.make ''user'' (JStr (strip text)) None],
                    agent := agent2\<rparr>)
              (console_print InterruptHint w2)
          else if e = EOFError then
            (None, self\<lparr>messages := messages self @ [Message.make ''user'' (JStr (strip text)) None],
                         agent := agent2\<rparr>, w2)
          else
            (Some e, self\<lparr>messages := messages self @ [Message.make ''user'' (JStr (strip text)) None],
                           agent := agent2\<rparr>, w2))"
  using assms by (simp add: Let_def split: prod.splits sum.splits)

lemma chat_streams_hi_there:
  assumes "on_stream w = on_stream streaming_world"
    and "ai_service sample_config a = (Inr svc, a1)"
  shows "fst (chat sample_config sample_loads a msg h True w) = Inr (JStr ''hi there'')
       \<and> fst (snd (chat sample_config sample_loads a msg h True w)) = a1"
proof -
  have s: "on_stream w n p = StreamResponse 200 [hi_line, [], there_line, ''data: [DONE]''] None" for n p
    using assms(1) by (simp add: streaming_world_def empty_world_def world.defs)
  show ?thesis
    using assms(2)
    by (simp add: chat_def Let_def complete_stream_def open_stream_def s raise_for_status_def)
qed

text \<open>
  What the \<open>finally\<close> clause does to the store: nothing unless auto-save is enabled and
  the transcript is not empty; then one new row, provided that no row with the session's
  identifier is stored yet.
\<close>

lemma run_finally_sessions:
  "sessions (snd (run_finally markup_error cfg self w)) =
     (if auto_save cfg \<and> messages self \<noteq> [] \<and> session_id self \<notin> set (map sm_id (sessions w))
      then sessions w @
           [SessionModel.make (session_id self) (''REPL Session - '' @ utcnow w) (agent_id (agent self))
              (map (\<lambda>msg. (role msg, content msg, utcnow w)) (messages self))]
      else sessions w)"
  by (auto simp: run_finally_def save_session_def console_print_markup_def Let_def)

lemma run_loop_exit:
  "run_loop markup_error cfg loads (Line ''/exit'' # rest) self w = (None, self, w)"
  "run_loop markup_error cfg loads (Line ''/quit'' # rest) self w = (None, self, w)"
  "run_loop markup_error cfg loads [] self w = (None, self, w)"
  by (simp_all add: strip_def is_space_def startswith_def handle_command_def split_def
        lower_def lower_char_def Let_def)

lemma run_loop_save:
  "save_session markup_error self w = (None, w1) \<Longrightarrow>
     run_loop markup_error cfg loads (Line ''/save'' # rest) self w = run_loop markup_error cfg loads rest self w1"
  by (simp add: strip_def is_space_def startswith_def handle_command_def split_def
        lower_def lower_char_def Let_def)

lemma strip_words [simp]:
  "strip ''hello'' = ''hello''" "strip ''more'' = ''more''"
  "\<not> startswith ''hello'' ''/''" "\<not> startswith ''more'' ''/''"
  by (simp_all add: strip_def is_space_def startswith_def)

lemma cached_service [simp]:
  "ai_service cfg (a\<lparr>ai_service_cache := Some svc\<rparr>) = (Inr svc, a\<lparr>ai_service_cache := Some svc\<rparr>)"
  by (simp add: ai_service_def)

text \<open>One streaming turn against the sample provider.\<close>

lemma streaming_turn:
  assumes "on_stream w = on_stream streaming_world"
    and "ai_service sample_config (agent self) = (Inr svc, a1)"
    and "strip text \<noteq> []" and "\<not> startswith (strip text) ''/''"
  shows "\<exists>w'. run_loop markup_error sample_config sample_loads (Line text # rest) self w
               = run_loop markup_error sample_config sample_loads rest
                   (self\<lparr>agent := a1,
                         messages := messages self @ [Message.make ''user'' (JStr (strip text)) None,
                                                      Message.make ''assistant'' (JStr ''hi there'') None]\<rparr>)
                   w'
             \<and> console w' = console w @ [AssistantHeader, EmptyLine]
             \<and> sessions w' = sessions w \<and> on_stream w' = on_stream w \<and> utcnow w' = utcnow w"
proof -
  let ?w1 = "console_print AssistantHeader w"
  let ?c = "chat sample_config sample_loads (agent self) (strip text) (Some (messages self)) True ?w1"
  have o: "on_stream ?w1 = on_stream streaming_world" using assms(1) by simp
  from chat_streams_hi_there[OF o assms(2), of "strip text" "Some (messages self)"]
  have c: "?c = (Inr (JStr ''hi there''), a1, snd (snd ?c))"
    by (cases ?c) auto
  have "run_loop markup_error sample_config sample_loads (Line text # rest) self w
               = run_loop markup_error sample_config sample_loads rest
                   (self\<lparr>agent := a1,
                         messages := messages self @ [Message.make ''user'' (JStr (strip text)) None,
                                                      Message.make ''assistant'' (JStr ''hi there'') None]\<rparr>)
                   (console_print EmptyLine (snd (snd ?c)))"
    by (subst run_loop_chat_turn[OF assms(3,4)], subst c) simp
  moreover have "console (console_print EmptyLine (snd (snd ?c))) = console w @ [AssistantHeader, EmptyLine]"
    "sessions (console_print EmptyLine (snd (snd ?c))) = sessions w"
    "on_stream (console_print EmptyLine (snd (snd ?c))) = on_stream w"
    "utcnow (console_print EmptyLine (snd (snd ?c))) = utcnow w"
    using chat_stream_world[of sample_config sample_loads "agent self" "strip text" "Some (messages self)" ?w1]
    by simp_all
  ultimately show ?thesis by blast
qed

text \<open>
  Claim C9, at the inputs \<open>hello\<close>, \<open>/save\<close>, \<open>more\<close>, \<open>/exit\<close> with auto-save enabled. The
  loop is left by \<open>/exit\<close> with a transcript of four messages. The \<open>finally\<close> clause calls
  \<open>save_session\<close>, but the row stored by \<open>/save\<close> has the session's identifier, the store
  refuses the second row, and the failure is only reported: the store ends with the one
  row of two messages.
\<close>

theorem autosave_after_save_refused:
  "auto_save sample_config
   \<and> fst (run sample_markup_error sample_config sample_loads
            [Line ''hello'', Line ''/save'', Line ''more'', Line ''/exit''] fresh_session streaming_world)
       = None
   \<and> map content (messages (fst (snd (run sample_markup_error sample_config sample_loads
            [Line ''hello'', Line ''/save'', Line ''more'', Line ''/exit''] fresh_session streaming_world))))
       = [JStr ''hello'', JStr ''hi there'', JStr ''more'', JStr ''hi there'']
   \<and> length (sessions (snd (snd (run sample_markup_error sample_config sample_loads
            [Line ''hello'', Line ''/save'', Line ''more'', Line ''/exit''] fresh_session streaming_world))))
       = 1
   \<and> concat (map (\<lambda>row. map (\<lambda>(r, c, t). c) (sm_messages row))
         (sessions (snd (snd (run sample_markup_error sample_config sample_loads
            [Line ''hello'', Line ''/save'', Line ''more'', Line ''/exit''] fresh_session streaming_world)))))
       = [JStr ''hello'', JStr ''hi there'']
   \<and> console (snd (snd (run sample_markup_error sample_config sample_loads
            [Line ''hello'', Line ''/save'', Line ''more'', Line ''/exit''] fresh_session streaming_world)))
       = [WelcomeBanner, UsingAgent ''default'' ''general'', WelcomeHint, WelcomeCommands,
          AssistantHeader, EmptyLine, SessionSaved 0,
          AssistantHeader, EmptyLine, SaveFailed IntegrityError, Goodbye]"
proof -
  let ?a1 = "sample_agent\<lparr>ai_service_cache := Some svc3\<rparr>"
  let ?m2 = "[Message.make ''user'' (JStr ''hello'') None, Message.make ''assistant'' (JStr ''hi there'') None]"
  let ?m4 = "?m2 @ [Message.make ''user'' (JStr ''more'') None, Message.make ''assistant'' (JStr ''hi there'') None]"
  let ?s1 = "fresh_session\<lparr>agent := ?a1, messages := ?m2\<rparr>"
  let ?s2 = "fresh_session\<lparr>agent := ?a1, messages := ?m4\<rparr>"
  let ?w0 = "console_print WelcomeCommands (console_print WelcomeHint
               (console_print (UsingAgent ''default'' ''general'') (console_print WelcomeBanner streaming_world)))"
  let ?me = sample_markup_error
  have f: "agent fresh_session = sample_agent" "messages fresh_session = []" "session_id fresh_session = 0"
    by (simp_all add: fresh_session_def REPLSession.defs)
  have pw: "print_welcome ?me fresh_session streaming_world = (None, ?w0)"
    by (rule print_welcome_sample[OF f(1)])
  have w0: "on_stream ?w0 = on_stream streaming_world" "sessions ?w0 = []"
    "console ?w0 = [WelcomeBanner, UsingAgent ''default'' ''general'', WelcomeHint, WelcomeCommands]"
    by (simp_all add: streaming_world_def empty_world_def world.defs)
  from streaming_turn[OF w0(1), of fresh_session svc3 ?a1 "''hello''" ?me
         "[Line ''/save'', Line ''more'', Line ''/exit'']"]
  obtain w1 where t1: "run_loop ?me sample_config sample_loads
         [Line ''hello'', Line ''/save'', Line ''more'', Line ''/exit''] fresh_session ?w0
       = run_loop ?me sample_config sample_loads [Line ''/save'', Line ''more'', Line ''/exit''] ?s1 w1"
    and w1: "console w1 = console ?w0 @ [AssistantHeader, EmptyLine]" "sessions w1 = sessions ?w0"
      "on_stream w1 = on_stream ?w0"
    by (auto simp: f)
  let ?row = "SessionModel.make 0 (''REPL Session - '' @ utcnow w1) (agent_id ?a1)
                (map (\<lambda>msg. (role msg, content msg, utcnow w1)) ?m2)"
  let ?w2 = "console_print (SessionSaved 0) (w1\<lparr>sessions := [?row]\<rparr>)"
  have sv: "save_session ?me ?s1 w1 = (None, ?w2)"
    using save_session_stores[of ?s1 w1 ?me] w1(2) w0(2) by (simp add: f)
  have w2: "on_stream ?w2 = on_stream streaming_world" "sessions ?w2 = [?row]"
    "console ?w2 = console ?w0 @ [AssistantHeader, EmptyLine, SessionSaved 0]"
    using w1 w0(1) by simp_all
  from streaming_turn[OF w2(1), of ?s1 svc3 ?a1 "''more''" ?me "[Line ''/exit'']"]
  obtain w3 where t3: "run_loop ?me sample_config sample_loads [Line ''more'', Line ''/exit''] ?s1 ?w2
       = run_loop ?me sample_config sample_loads [Line ''/exit''] ?s2 w3"
    and w3: "console w3 = console ?w2 @ [AssistantHeader, EmptyLine]" "sessions w3 = sessions ?w2"
    by auto
  have loop: "run_loop ?me sample_config sample_loads
         [Line ''hello'', Line ''/save'', Line ''more'', Line ''/exit''] fresh_session ?w0
       = (None, ?s2, w3)"
    by (simp only: t1 run_loop_save[OF sv] t3 run_loop_exit)
  have fin: "run_finally ?me sample_config ?s2 w3
       = (None, console_print Goodbye (console_print (SaveFailed IntegrityError)
           (logger (LogSaveFailed IntegrityError) w3)))"
    using save_session_refused[of ?s2 w3 ?me] w3(2) w2(2)
    by (simp add: run_finally_def f sample_config_def Config.defs SessionModel.defs)
  have r: "run ?me sample_config sample_loads
            [Line ''hello'', Line ''/save'', Line ''more'', Line ''/exit''] fresh_session streaming_world
       = (None, ?s2, console_print Goodbye (console_print (SaveFailed IntegrityError)
           (logger (LogSaveFailed IntegrityError) w3)))"
    by (simp only: run_def pw prod.case option.case loop fin)
  show ?thesis
    unfolding r using w3 w2 w0
    by (simp add: sample_config_def Config.defs Message.defs SessionModel.defs)
qed

text \<open>
  A chat turn that raises an exception the loop does not catch: what \<open>run\<close> returns.
\<close>

lemma run_loop_failed_turn:
  assumes "strip text \<noteq> []" and "\<not> startswith (strip text) ''/''"
    and "fst (chat cfg loads (agent self) (strip text) (Some (messages self)) True
               (console_print AssistantHeader w)) = Inl e"
    and "is_Exception e" and "e \<noteq> EOFError"
  shows "run_loop markup_error cfg loads (Line text # rest) self w
     = (Some e,
        self\<lparr>messages := messages self @ [Message.make ''user'' (JStr (strip text)) None],
              agent := fst (snd (chat cfg loads (agent self) (strip text) (Some (messages self)) True
                                   (console_print AssistantHeader w)))\<rparr>,
        snd (snd (chat cfg loads (agent self) (strip text) (Some (messages self)) True
                       (console_print AssistantHeader w))))"
proof -
  let ?c = "chat cfg loads (agent self) (strip text) (Some (messages self)) True
              (console_print AssistantHeader w)"
  have ki: "e \<noteq> KeyboardInterrupt" using assms(4) by auto
  have c: "?c = (Inl e, fst (snd ?c), snd (snd ?c))"
    using assms(3) by (cases ?c) auto
  show ?thesis
    by (subst run_loop_chat_turn[OF assms(1,2)], subst c) (simp add: ki assms(5) case_prod_beta)
qed

lemma run_after_loop:
  assumes "print_welcome markup_error self w = (None, w0)"
    and "run_loop markup_error cfg loads inputs self w0 = (r, self1, w1)"
  shows "run markup_error cfg loads inputs self w
     = (case fst (run_finally markup_error cfg self1 w1) of None \<Rightarrow> r | Some e' \<Rightarrow> Some e',
        self1, snd (run_finally markup_error cfg self1 w1))"
  by (cases "run_finally markup_error cfg self1 w1")
     (simp add: run_def assms split: option.splits)


text \<open>
  The error handler of \<open>start_repl\<close>. It logs the exception and then calls the console with
  a keyword the console does not take, so \<open>start_repl\<close> raises \<open>TypeError\<close> for every
  \<open>Exception\<close> that reaches it.
\<close>

lemma start_repl_handler:
  assumes "REPLSession_init cfg agent_arg w0 = (Inr self, w)"
    and "run markup_error cfg loads inputs self w = (Some e, self1, w1)"
    and "is_Exception e"
  shows "start_repl markup_error cfg loads agent_arg inputs w0
           = (Raised TypeError, logger (LogREPLError e) w1)"
  by (simp add: start_repl_def assms except_handler_def)

lemma start_repl_returns:
  assumes "REPLSession_init cfg agent_arg w0 = (Inr self, w)"
    and "run markup_error cfg loads inputs self w = (None, self1, w1)"
  shows "start_repl markup_error cfg loads agent_arg inputs w0 = (Returned, w1)"
  by (simp add: start_repl_def assms)

lemma chat_connection_refused:
  assumes "on_stream w = on_stream empty_world"
    and "ai_service sample_config a = (Inr svc, a1)"
  shows "fst (chat sample_config sample_loads a msg h True w) = Inl (TransportError ''connection refused'')"
proof -
  have s: "on_stream w n p = StreamRaises (TransportError ''connection refused'')" for n p
    using assms(1) by (simp add: empty_world_def world.defs)
  show ?thesis
    using assms(2) by (simp add: chat_def Let_def complete_stream_def open_stream_def s)
qed

lemma strip_again [simp]:
  "strip ''again'' = ''again''" "\<not> startswith ''again'' ''/''"
  by (simp_all add: strip_def is_space_def startswith_def)




text \<open>
  An example: no agent is stored and the provider refuses the connection. The default
  agent is created, the first turn fails, the \<open>finally\<close> clause saves the transcript (the
  user message of the failed turn) and prints the farewell, and the handler of
  \<open>start_repl\<close> logs the error and raises \<open>TypeError\<close>.
\<close>

lemma init_empty_store:
  "on_stream w = on_stream empty_world \<Longrightarrow> agents w = [] \<Longrightarrow> next_uuid w = 0 \<Longrightarrow>
     fst (REPLSession_init sample_config None w) = Inr first_session
     \<and> on_stream (snd (REPLSession_init sample_config None w)) = on_stream empty_world
     \<and> console (snd (REPLSession_init sample_config None w)) = console w @ [CreatingDefaultAgent]
     \<and> sessions (snd (REPLSession_init sample_config None w)) = sessions w"
  by (simp add: REPLSession_init_def sample_config_def Config.defs or_str_def get_agent_def
        create_agent_def uuid4_def console_print_def logger_def Let_def model_to_agent_def
        AgentModel.defs first_session_def created_agent_def)

lemma created_service [simp]:
  "ai_service sample_config created_agent = (Inr svc3, created_agent\<lparr>ai_service_cache := Some svc3\<rparr>)"
  by (simp add: ai_service_def created_agent_def sample_config_def svc3_def OpenAIService_init_def
        or_str_def or_int_def dict_get_def dict_get_default_def
        Agent.defs Config.defs AIServiceConfig.defs OpenAIService.defs)

lemma first_session_fields:
  "agent first_session = created_agent" "messages first_session = []"
  by (simp_all add: first_session_def REPLSession.defs)

lemma run_finally_sample:
  "fst (run_finally sample_markup_error cfg self w) = None"
  by (simp add: run_finally_def save_session_def console_print_markup_def Let_def)

lemma start_repl_first_turn_refused:
  "fst (start_repl sample_markup_error sample_config sample_loads None
          [Line ''hello'', Line ''/help''] empty_world)
     = Raised TypeError
   \<and> last (log (snd (start_repl sample_markup_error sample_config sample_loads None
                       [Line ''hello'', Line ''/help''] empty_world)))
     = LogREPLError (TransportError ''connection refused'')
   \<and> console (snd (start_repl sample_markup_error sample_config sample_loads None
                     [Line ''hello'', Line ''/help''] empty_world))
     = [CreatingDefaultAgent, WelcomeBanner, UsingAgent ''default'' ''general'', WelcomeHint,
        WelcomeCommands, AssistantHeader, SessionSaved 1, Goodbye]"
proof -
  let ?i = "REPLSession_init sample_config None empty_world"
  let ?wi = "snd ?i"
  let ?w0 = "console_print WelcomeCommands (console_print WelcomeHint
               (console_print (UsingAgent ''default'' ''general'') (console_print WelcomeBanner ?wi)))"
  let ?c = "chat sample_config sample_loads (agent first_session) (strip ''hello'')
              (Some (messages first_session)) True (console_print AssistantHeader ?w0)"
  let ?s = "first_session\<lparr>messages := messages first_session
                             @ [Message.make ''user'' (JStr (strip ''hello'')) None],
                           agent := fst (snd ?c)\<rparr>"
  have e: "agents empty_world = []" "next_uuid empty_world = 0" "console empty_world = []"
    by (simp_all add: empty_world_def world.defs)
  note i = init_empty_store[OF refl e(1,2)]
  have init: "?i = (Inr first_session, ?wi)"
    using i by (cases ?i) simp
  have pw: "print_welcome sample_markup_error first_session ?wi = (None, ?w0)"
    by (simp add: print_welcome_def console_print_markup_def first_session_fields
          created_agent_def Agent.defs)
  have o: "on_stream (console_print AssistantHeader ?w0) = on_stream empty_world"
    using i by simp
  have c: "fst ?c = Inl (TransportError ''connection refused'')"
    unfolding first_session_fields(1)
    by (rule chat_connection_refused[OF o created_service])
  have b: "strip ''hello'' \<noteq> []" "\<not> startswith (strip ''hello'') ''/''" by simp_all
  have x: "is_Exception (TransportError ''connection refused'')"
    "TransportError ''connection refused'' \<noteq> EOFError" by simp_all
  note l = run_loop_failed_turn[OF b c x, of sample_markup_error "[Line ''/help'']"]
  have r: "run sample_markup_error sample_config sample_loads [Line ''hello'', Line ''/help'']
             first_session ?wi
        = (Some (TransportError ''connection refused''), ?s,
           snd (run_finally sample_markup_error sample_config ?s (snd (snd ?c))))"
    unfolding run_after_loop[OF pw l] by (simp add: run_finally_sample)
  note st = start_repl_handler[OF init r x(1)]
  have w: "console (snd (snd ?c)) = console (console_print AssistantHeader ?w0)"
    "sessions (snd (snd ?c)) = sessions (console_print AssistantHeader ?w0)"
    using chat_stream_world[of sample_config sample_loads "agent first_session" "strip ''hello''"
            "Some (messages first_session)" "console_print AssistantHeader ?w0"]
    by simp_all
  show ?thesis
    unfolding st using w i e
    by (simp add: run_finally_def save_session_def console_print_markup_def Let_def
          sample_config_def Config.defs first_session_def REPLSession.defs empty_world_def world.defs)
qed

section \<open>The transcript holds dialogue only\<close>

text \<open>
  The transcript of a session never holds a system message: the loop appends user and
  assistant messages only, and commands leave the transcript or empty it. So the history
  the loop hands to \<open>chat\<close> has no system message.
\<close>

lemma handle_command_transcript:
  "handle_command markup_error cfg command self w = (r, self1, w1) \<Longrightarrow>
     messages self1 = messages self \<or> messages self1 = []"
  by (auto simp: handle_command_def Let_def uuid4_def console_print_markup_def
           split: list.splits if_splits option.splits prod.splits)

lemma run_loop_transcript_roles:
  "\<forall>m \<in> set (messages self). role m = ''user'' \<or> role m = ''assistant'' \<Longrightarrow>
     \<forall>m \<in> set (messages (fst (snd (run_loop markup_error cfg loads inputs self w)))).
        role m = ''user'' \<or> role m = ''assistant''"
proof (induction inputs arbitrary: self w)
  case Nil
  then show ?case by simp
next
  case (Cons x xs)
  note IH = Cons.IH
  show ?case
  proof (cases x)
    case CtrlD
    with Cons.prems show ?thesis by simp
  next
    case CtrlC
    with IH[OF Cons.prems] show ?thesis by simp
  next
    case (Line line)
    show ?thesis
    proof (cases "strip line = []")
      case True
      with IH[OF Cons.prems] Line show ?thesis by simp
    next
      case ne: False
      show ?thesis
      proof (cases "startswith (strip line) ''/''")
        case True
        obtain r self1 w1 where h: "handle_command markup_error cfg (strip line) self w = (r, self1, w1)"
          by (cases "handle_command markup_error cfg (strip line) self w")
        from handle_command_transcript[OF h] Cons.prems
        have inv: "\<forall>m \<in> set (messages self1). role m = ''user'' \<or> role m = ''assistant''"
          by auto
        from IH[OF inv] inv Line ne True h show ?thesis
          by (cases r) (simp_all add: Let_def)
      next
        case False
        let ?u = "Message.make ''user'' (JStr (strip line)) None"
        obtain r agent2 w2 where c:
          "chat cfg loads (agent self) (strip line) (Some (messages self)) True
             (console_print AssistantHeader w) = (r, agent2, w2)"
          by (cases "chat cfg loads (agent self) (strip line) (Some (messages self)) True
                       (console_print AssistantHeader w)")
        show ?thesis
        proof (cases r)
          case (Inr response)
          let ?s2 = "self\<lparr>agent := agent2,
                          messages := messages self @ [?u, Message.make ''assistant'' response None]\<rparr>"
          have inv: "\<forall>m \<in> set (messages ?s2). role m = ''user'' \<or> role m = ''assistant''"
            using Cons.prems by (auto simp: Message.defs)
          from IH[OF inv] show ?thesis
            unfolding Line run_loop_chat_turn[OF ne False] c Inr by simp
        next
          case (Inl e)
          let ?s2 = "self\<lparr>messages := messages self @ [?u], agent := agent2\<rparr>"
          have inv: "\<forall>m \<in> set (messages ?s2). role m = ''user'' \<or> role m = ''assistant''"
            using Cons.prems by (auto simp: Message.defs)
          from IH[OF inv] inv show ?thesis
            unfolding Line run_loop_chat_turn[OF ne False] c Inl by simp
        qed
      qed
    qed
  qed
qed

end
